theory Spec2Isabelle
  imports Main
begin

section \<open>Chart download (pkg/helm/download.go): a shallow embedding\<close>

text \<open>
  The Go package \<open>helm\<close> resolves a chart reference to a file under \<open>ChartsDir\<close>,
  fetching it from a chart repository, a plain HTTP source or an OCI registry.
  The embedding follows \<open>src/pkg/helm/download.go\<close> function by function. Go strings are
  byte sequences and are modelled as \<open>string\<close>; a nil pointer is \<open>None\<close>; a Go
  \<open>error\<close> result is an \<open>error option\<close> (\<open>None\<close> is \<open>nil\<close>); a run-time panic is
  the outcome \<open>Panics\<close>. Logging has no effect on results and is left out.

  Everything outside the package (the chart-repository metadata store, the Kubernetes
  secret API, the HTTP transport, the OCI registry client, the fallible file-system
  calls and the Unicode lower-casing of \<open>strings.ToLower\<close>) is a field of the record
  \<open>env\<close>; the files, the directories, the process-wide
  repository cache and the sequence of calls made to the external services are the
  record \<open>world\<close>, passed through every function.
\<close>

subsection \<open>Errors, panics and outcomes\<close>

datatype error =
    ErrorsNew string      \<comment> \<open>\<open>errors.New\<close> / \<open>errors.Errorf\<close> with this message\<close>
  | StatusNotFound string \<comment> \<open>an API error for which \<open>apierrors.IsNotFound\<close> holds\<close>
  | OtherError string     \<comment> \<open>any other error of an external collaborator\<close>

fun IsNotFound :: "error \<Rightarrow> bool" where
  "IsNotFound (StatusNotFound _) = True"
| "IsNotFound _ = False"

datatype panic = NilPointerDereference | IndexOutOfRange

datatype 'a outcome = Returns 'a | Panics panic

subsection \<open>Data\<close>

type_synonym rest_Config = string
type_synonym kube_Client = string
type_synonym registry_Client = string
type_synonym registry_Reference = string
type_synonym chart_Chart = string

text \<open>\<open>repo.Entry\<close>: the fields this package reads.\<close>

record Entry =
  URL :: string
  Username :: string
  Password :: string

text \<open>The chart version returned by \<open>chartrepo.GetChart\<close>.\<close>

record ChartVersion =
  URLs :: "string list"
  Digest :: string

record ChartSourceHTTP =
  http_URL :: string
  http_SecretRef :: string

record ChartSourceOCI =
  oci_Repo :: string
  oci_SecretRef :: string

record ChartSource =
  HTTP :: "ChartSourceHTTP option"
  OCI :: "ChartSourceOCI option"

record HelmRequestSpec =
  Source :: "ChartSource option"

record HelmRequest =
  Name :: string
  Namespace :: string
  Spec :: HelmRequestSpec

record Downloader =
  incfg :: rest_Config
  cfg :: rest_Config
  ns :: string

record request =
  req_url :: string
  req_auth :: "(string \<times> string) option"

record response =
  StatusCode :: int
  Status :: string
  Body :: "error + string" \<comment> \<open>what \<open>io.Copy\<close> reads from the body, or its error\<close>

subsection \<open>The external collaborators and the world\<close>

datatype event =
    GetChartRepoCall string string rest_Config
  | GetChartCall string string string rest_Config
  | SecretsGetCall kube_Client string string
  | HTTPDoCall request
  | PullChartCall registry_Reference string string
  | LoadChartCall registry_Reference

record env =
  ToLower :: "string \<Rightarrow> string" \<comment> \<open>\<open>strings.ToLower\<close> of the standard library\<close>
  GetChartRepo :: "string \<Rightarrow> string \<Rightarrow> rest_Config \<Rightarrow> error + Entry"
  GetChart :: "string \<Rightarrow> string \<Rightarrow> string \<Rightarrow> rest_Config \<Rightarrow> error + ChartVersion"
  GetChartPath :: "string \<Rightarrow> string \<Rightarrow> string \<Rightarrow> rest_Config \<Rightarrow> error + string"
  NewForConfig :: "rest_Config \<Rightarrow> error + kube_Client"
  SecretsGet :: "kube_Client \<Rightarrow> string \<Rightarrow> string \<Rightarrow> error + (string \<rightharpoonup> string)"
  NewRequestErr :: "string \<Rightarrow> error option"
  HTTPDo :: "request \<Rightarrow> error + response"
  RegistryNewClient :: "error + registry_Client"
  ParseReference :: "string \<Rightarrow> error + registry_Reference"
  PullChart :: "registry_Client \<Rightarrow> registry_Reference \<Rightarrow> string \<Rightarrow> string \<Rightarrow> error option"
  LoadChart :: "registry_Client \<Rightarrow> registry_Reference \<Rightarrow> error + chart_Chart"
  StatFails :: "string \<Rightarrow> bool"
  MkdirAllErr :: "string \<Rightarrow> error option"
  RemoveFails :: "string \<Rightarrow> bool"
  WriteFileErr :: "string \<Rightarrow> string \<Rightarrow> (error \<times> string option) option"

record world =
  files :: "string \<rightharpoonup> string"
  dirs :: "string set"
  repoCache :: "string \<rightharpoonup> Entry" \<comment> \<open>the unexpired entries of the go-cache\<close>
  trace :: "event list"

definition call :: "event \<Rightarrow> world \<Rightarrow> world" where
  "call e w = w\<lparr>trace := trace w @ [e]\<rparr>"

subsection \<open>The standard-library calls the package uses\<close>

text \<open>\<open>strings.Split(s, sep)\<close> for a one-byte separator: never empty, \<open>[s]\<close> when
  \<open>sep\<close> does not occur.\<close>

fun strings_Split :: "string \<Rightarrow> char \<Rightarrow> string list" where
  "strings_Split [] sep = [[]]"
| "strings_Split (x # xs) sep =
     (if x = sep then [] # strings_Split xs sep
      else (case strings_Split xs sep of
              [] \<Rightarrow> [[x]]
            | seg # segs \<Rightarrow> (x # seg) # segs))"

definition strings_HasPrefix :: "string \<Rightarrow> string \<Rightarrow> bool" where
  "strings_HasPrefix s p = (length p \<le> length s \<and> take (length p) s = p)"

definition strings_HasSuffix :: "string \<Rightarrow> string \<Rightarrow> bool" where
  "strings_HasSuffix s p = (length p \<le> length s \<and> drop (length s - length p) s = p)"

text \<open>\<open>strings.Trim(s, cutset)\<close> for a cutset of one-byte characters: removes them at
  both ends.\<close>

definition strings_Trim :: "string \<Rightarrow> string \<Rightarrow> string" where
  "strings_Trim s cutset =
     rev (dropWhile (\<lambda>c. c \<in> set cutset) (rev (dropWhile (\<lambda>c. c \<in> set cutset) s)))"

text \<open>\<open>strings.LastIndex(s, sep)\<close> for a one-byte separator; \<open>-1\<close> when absent.\<close>

definition strings_LastIndex :: "string \<Rightarrow> char \<Rightarrow> int" where
  "strings_LastIndex s sep =
     (if sep \<in> set s
      then int (length s) - 1 - int (length (takeWhile (\<lambda>c. c \<noteq> sep) (rev s)))
      else - 1)"

text \<open>Lower-casing of the ASCII letters \<open>A\<close>..\<open>Z\<close>. It is not the model of
  \<open>strings.ToLower\<close>, which maps every Unicode letter and is a parameter of the
  environment (\<open>ToLower\<close>); it is what the concrete environment below uses, and it
  agrees with \<open>strings.ToLower\<close> on ASCII strings.\<close>

definition toLowerChar :: "char \<Rightarrow> char" where
  "toLowerChar c =
     (if 65 \<le> (of_char c :: nat) \<and> (of_char c :: nat) \<le> 90
      then char_of ((of_char c :: nat) + 32) else c)"

definition asciiToLower :: "string \<Rightarrow> string" where
  "asciiToLower s = map toLowerChar s"

datatype stat_result = StatOK | StatNotExist | StatOtherError

definition os_Stat :: "env \<Rightarrow> world \<Rightarrow> string \<Rightarrow> stat_result" where
  "os_Stat env w p =
     (if StatFails env p then StatOtherError
      else if files w p \<noteq> None \<or> p \<in> dirs w then StatOK
      else StatNotExist)"

text \<open>\<open>os.MkdirAll\<close>; only the directory itself is recorded, its parents are never
  inspected by this package.\<close>

definition os_MkdirAll :: "env \<Rightarrow> world \<Rightarrow> string \<Rightarrow> error option \<times> world" where
  "os_MkdirAll env w dir =
     (case MkdirAllErr env dir of
        Some e \<Rightarrow> (Some e, w)
      | None \<Rightarrow> (None, w\<lparr>dirs := insert dir (dirs w)\<rparr>))"

definition os_Remove :: "env \<Rightarrow> world \<Rightarrow> string \<Rightarrow> world" where
  "os_Remove env w p =
     (if RemoveFails env p then w
      else w\<lparr>files := (files w)(p := None), dirs := dirs w - {p}\<rparr>)"

text \<open>\<open>ioutil.WriteFile\<close>: on success the file holds the data; a failure leaves the
  world as it was or leaves a partial file, as the environment says.\<close>

definition ioutil_WriteFile :: "env \<Rightarrow> world \<Rightarrow> string \<Rightarrow> string \<Rightarrow> error option \<times> world" where
  "ioutil_WriteFile env w p d =
     (case WriteFileErr env p d of
        None \<Rightarrow> (None, w\<lparr>files := (files w)(p \<mapsto> d)\<rparr>)
      | Some (e, None) \<Rightarrow> (Some e, w)
      | Some (e, Some part) \<Rightarrow> (Some e, w\<lparr>files := (files w)(p \<mapsto> part)\<rparr>))"

text \<open>\<open>http.NewRequest("GET", url, nil)\<close>: a nil request and an error when the URL
  does not parse.\<close>

definition http_NewRequest :: "env \<Rightarrow> string \<Rightarrow> request option \<times> error option" where
  "http_NewRequest env url =
     (case NewRequestErr env url of
        Some e \<Rightarrow> (None, Some e)
      | None \<Rightarrow> (Some \<lparr>req_url = url, req_auth = None\<rparr>, None))"

definition SetBasicAuth :: "request \<Rightarrow> string \<Rightarrow> string \<Rightarrow> request" where
  "SetBasicAuth r username password = r\<lparr>req_auth := Some (username, password)\<rparr>"

subsection \<open>download.go\<close>

definition ChartsDir :: string where
  "ChartsDir = ''/tmp/helm-charts''"

definition getRepoAndChart :: "string \<Rightarrow> string \<times> string" where
  "getRepoAndChart name =
     (let data = strings_Split name (CHR ''/'')
      in if length data \<noteq> 2 then ([], []) else (data ! 0, data ! 1))"

definition getRepoInfo :: "Downloader \<Rightarrow> env \<Rightarrow> world \<Rightarrow> string \<Rightarrow> string \<Rightarrow> (error + Entry) \<times> world" where
  "getRepoInfo d env w name nsp =
     (case repoCache w name of
        Some result \<Rightarrow> (Inr result, w)
      | None \<Rightarrow>
          (let w1 = call (GetChartRepoCall name nsp (incfg d)) w
           in case GetChartRepo env name nsp (incfg d) of
                Inr entry \<Rightarrow> (Inr entry, w1\<lparr>repoCache := (repoCache w1)(name \<mapsto> entry)\<rparr>)
              | Inl err \<Rightarrow> (Inl err, w1)))"

text \<open>The block that both \<open>downloadChart\<close> and \<open>downloadChartFromHTTP\<close> run on
  \<open>ChartsDir\<close>: create it when \<open>os.Stat\<close> reports that it does not exist.\<close>

definition ensureDir :: "env \<Rightarrow> world \<Rightarrow> string \<Rightarrow> error option \<times> world" where
  "ensureDir env w dir =
     (if os_Stat env w dir = StatNotExist then os_MkdirAll env w dir else (None, w))"

definition downloadFile ::
  "env \<Rightarrow> world \<Rightarrow> string \<Rightarrow> string \<Rightarrow> string \<Rightarrow> string \<Rightarrow> error option outcome \<times> world" where
  "downloadFile env w url username password filepath =
     (let (req, err) = http_NewRequest env url
      in case (if username \<noteq> [] \<and> password \<noteq> []
               then (case req of
                       None \<Rightarrow> Panics NilPointerDereference
                     | Some r \<Rightarrow> Returns (Some (SetBasicAuth r username password)))
               else Returns req) of
           Panics p \<Rightarrow> (Panics p, w)
         | Returns None \<Rightarrow> (Panics NilPointerDereference, w)
         | Returns (Some r) \<Rightarrow>
             (let w1 = call (HTTPDoCall r) w
              in case HTTPDo env r of
                   Inl err \<Rightarrow> (Returns (Some err), w1)
                 | Inr resp \<Rightarrow>
                     if StatusCode resp \<noteq> 200
                     then (Returns (Some (ErrorsNew
                             (''failed to fetch '' @ url @ '' : '' @ Status resp))), w1)
                     else (case Body resp of
                             Inl err \<Rightarrow> (Returns (Some err), w1)
                           | Inr buf \<Rightarrow>
                               (case ioutil_WriteFile env w1 filepath buf of
                                  (Some err, w2) \<Rightarrow> (Returns (Some err), w2)
                                | (None, w2) \<Rightarrow> (Returns None, w2)))))"

definition downloadFileFromEntry ::
  "env \<Rightarrow> world \<Rightarrow> Entry \<Rightarrow> string \<Rightarrow> string \<Rightarrow> error option outcome \<times> world" where
  "downloadFileFromEntry env w entry chartPath filepath =
     (let ep = URL entry @ ''/'' @ chartPath;
          ep = (if strings_HasSuffix (URL entry) ''/'' then URL entry @ chartPath else ep);
          ep = (if strings_HasPrefix chartPath ''http://'' \<or> strings_HasPrefix chartPath ''https://''
                then chartPath else ep)
      in downloadFile env w ep (Username entry) (Password entry) filepath)"

definition downloadChart ::
  "Downloader \<Rightarrow> env \<Rightarrow> world \<Rightarrow> string \<Rightarrow> string \<Rightarrow> (string \<times> error option) outcome \<times> world" where
  "downloadChart d env w name version =
     (let (repoName, chart) = getRepoAndChart name
      in if repoName = [] \<and> chart = []
         then (Returns ([], Some (ErrorsNew ''cannot parse chart name'')), w)
         else
           (let dir = ChartsDir
            in case ensureDir env w dir of
                 (Some err, w1) \<Rightarrow> (Returns ([], Some err), w1)
               | (None, w1) \<Rightarrow>
                   (case getRepoInfo d env w1 repoName (ns d) of
                      (Inl err, w2) \<Rightarrow> (Returns ([], Some err), w2)
                    | (Inr entry, w2) \<Rightarrow>
                        (let chartResourceName = ToLower env chart @ ''.'' @ repoName;
                             w3 = call (GetChartCall chartResourceName version (ns d) (incfg d)) w2
                         in case GetChart env chartResourceName version (ns d) (incfg d) of
                              Inl err \<Rightarrow> (Returns ([], Some err), w3)
                            | Inr cv \<Rightarrow>
                                (case URLs cv of
                                   [] \<Rightarrow> (Panics IndexOutOfRange, w3)
                                 | path # _ \<Rightarrow>
                                     (let segs = strings_Split path (CHR ''/'')
                                      in if length segs \<le> 1 then (Panics IndexOutOfRange, w3)
                                         else
                                           (let fileName = segs ! 1;
                                                filePath = dir @ ''/'' @ repoName @ ''-'' @ Digest cv @ ''-'' @ fileName
                                            in if os_Stat env w3 filePath \<noteq> StatNotExist
                                               then (Returns (filePath, None), w3)
                                               else
                                                 (case downloadFileFromEntry env w3 entry path filePath of
                                                    (Panics p, w4) \<Rightarrow> (Panics p, w4)
                                                  | (Returns (Some err), w4) \<Rightarrow> (Returns ([], Some err), w4)
                                                  | (Returns None, w4) \<Rightarrow> (Returns (filePath, None), w4)))))))))"

definition splitChartNameFromURL :: "string \<Rightarrow> string" where
  "splitChartNameFromURL url =
     (if length url = 0 then []
      else (let idx = strings_LastIndex url (CHR ''/'')
            in if idx = - 1 then url else drop (nat (idx + 1)) url))"

text \<open>Lines 285-300 of \<open>fetchAuthFromSecret\<close>: the fields of the secret that was read.\<close>

definition authFromSecret :: "(string \<rightharpoonup> string) \<Rightarrow> string \<Rightarrow> string \<Rightarrow> string \<times> string \<times> error option" where
  "authFromSecret sdata name namespace =
     (let username = (case sdata ''username'' of Some u \<Rightarrow> strings_Trim u [CHR 0x0A] | None \<Rightarrow> []);
          password = (case sdata ''password'' of Some p \<Rightarrow> strings_Trim p [CHR 0x0A] | None \<Rightarrow> [])
      in if username = [] \<or> password = []
         then ([], [], Some (ErrorsNew
                (''can not find username or password in the secret '' @ namespace @ ''/'' @ name)))
         else (username, password, None))"

definition fetchAuthFromSecret ::
  "Downloader \<Rightarrow> env \<Rightarrow> world \<Rightarrow> string \<Rightarrow> string \<Rightarrow> (string \<times> string \<times> error option) \<times> world" where
  "fetchAuthFromSecret d env w name namespace =
     (case NewForConfig env (incfg d) of
        Inl err \<Rightarrow> (([], [], Some err), w)
      | Inr inkc \<Rightarrow>
          (let w1 = call (SecretsGetCall inkc namespace name) w
           in case SecretsGet env inkc namespace name of
                Inr s \<Rightarrow> (authFromSecret s name namespace, w1)
              | Inl err \<Rightarrow>
                  if IsNotFound err
                  then (case NewForConfig env (cfg d) of
                          Inl errI \<Rightarrow> (([], [], Some errI), w1)
                        | Inr kc \<Rightarrow>
                            (let w2 = call (SecretsGetCall kc namespace name) w1
                             in case SecretsGet env kc namespace name of
                                  Inl err2 \<Rightarrow> (([], [], Some err2), w2)
                                | Inr s \<Rightarrow> (authFromSecret s name namespace, w2)))
                  else (([], [], Some err), w1)))"

definition downloadChartFromHTTP ::
  "Downloader \<Rightarrow> env \<Rightarrow> world \<Rightarrow> HelmRequest \<Rightarrow> (string \<times> error option) outcome \<times> world" where
  "downloadChartFromHTTP d env w hr =
     (case Source (Spec hr) of
        None \<Rightarrow> (Returns ([], None), w)
      | Some src \<Rightarrow>
          (case HTTP src of
             None \<Rightarrow> (Returns ([], None), w)
           | Some h \<Rightarrow>
               if http_URL h \<noteq> [] then
                 (let dir = ChartsDir
                  in case ensureDir env w dir of
                       (Some err, w1) \<Rightarrow> (Returns ([], Some err), w1)
                     | (None, w1) \<Rightarrow>
                         (let url = http_URL h;
                              chname = splitChartNameFromURL url;
                              filePath = dir @ ''/'' @ Name hr @ ''-'' @ chname;
                              w2 = (if os_Stat env w1 filePath \<noteq> StatNotExist
                                    then os_Remove env w1 filePath else w1);
                              ((username, password, err), w3) =
                                 (if http_SecretRef h \<noteq> []
                                  then fetchAuthFromSecret d env w2 (http_SecretRef h) (Namespace hr)
                                  else (([], [], None), w2))
                          in if err \<noteq> None then (Returns ([], err), w3)
                             else if strings_HasPrefix url ''http://'' \<or> strings_HasPrefix url ''https://''
                             then (case downloadFile env w3 url username password filePath of
                                     (Panics p, w4) \<Rightarrow> (Panics p, w4)
                                   | (Returns (Some err), w4) \<Rightarrow> (Returns ([], Some err), w4)
                                   | (Returns None, w4) \<Rightarrow> (Returns (filePath, None), w4))
                             else (Returns (filePath, Some (ErrorsNew
                                     ''helmrequest spec source http url does not start with HTTP or HTTPS'')), w3)))
               else (Returns ([], Some (ErrorsNew ''helmrequest spec source http url not found'')), w)))"

definition invalidSource :: error where
  "invalidSource = ErrorsNew ''invalid chart Source, need OCI type''"

definition pullOCIChart ::
  "Downloader \<Rightarrow> env \<Rightarrow> world \<Rightarrow> HelmRequest \<Rightarrow> (chart_Chart option \<times> error option) \<times> world" where
  "pullOCIChart d env w hr =
     (case RegistryNewClient env of
        Inl err \<Rightarrow> ((None, Some err), w)
      | Inr client \<Rightarrow>
          (case Source (Spec hr) of
             None \<Rightarrow> ((None, Some invalidSource), w)
           | Some src \<Rightarrow>
               (case OCI src of
                  None \<Rightarrow> ((None, Some invalidSource), w)
                | Some oci \<Rightarrow>
                    (let ((username, password, err), w1) =
                           (if oci_SecretRef oci \<noteq> []
                            then fetchAuthFromSecret d env w (oci_SecretRef oci) (Namespace hr)
                            else (([], [], None), w))
                     in if err \<noteq> None then ((None, err), w1)
                        else
                          (case ParseReference env (oci_Repo oci) of
                             Inl err \<Rightarrow> ((None, Some err), w1)
                           | Inr ref \<Rightarrow>
                               (let w2 = call (PullChartCall ref username password) w1
                                in case PullChart env client ref username password of
                                     Some err \<Rightarrow> ((None, Some err), w2)
                                   | None \<Rightarrow>
                                       (let w3 = call (LoadChartCall ref) w2
                                        in case LoadChart env client ref of
                                             Inl err \<Rightarrow> ((None, Some err), w3)
                                           | Inr cht \<Rightarrow> ((Some cht, None), w3))))))))"

subsection \<open>The earlier variant of the file (src/unnamed/part_000)\<close>

text \<open>
  The second source file is an earlier version of the same package. Its
  \<open>getRepoAndChart\<close> is the one above; its \<open>Downloader\<close> has the single configuration
  \<open>cfg\<close>; \<open>chartrepo.GetChart\<close> returns the chart path itself (\<open>GetChartPath\<close>); and
  \<open>downloadChart\<close> first looks for a file named after the reference and the version.
\<close>

definition strings_ReplaceAll :: "string \<Rightarrow> char \<Rightarrow> char \<Rightarrow> string" where
  "strings_ReplaceAll s old new = map (\<lambda>c. if c = old then new else c) s"

definition getChartPath :: "string \<Rightarrow> string \<Rightarrow> string" where
  "getChartPath name version =
     ChartsDir @ ''/'' @ strings_ReplaceAll name (CHR ''/'') (CHR ''-'') @ ''-'' @ version @ ''.tgz''"

definition getRepoInfo_part_000 ::
  "Downloader \<Rightarrow> env \<Rightarrow> world \<Rightarrow> string \<Rightarrow> string \<Rightarrow> (error + Entry) \<times> world" where
  "getRepoInfo_part_000 d env w name nsp =
     (case repoCache w name of
        Some result \<Rightarrow> (Inr result, w)
      | None \<Rightarrow>
          (let w1 = call (GetChartRepoCall name nsp (cfg d)) w
           in case GetChartRepo env name nsp (cfg d) of
                Inr entry \<Rightarrow> (Inr entry, w1\<lparr>repoCache := (repoCache w1)(name \<mapsto> entry)\<rparr>)
              | Inl err \<Rightarrow> (Inl err, w1)))"

text \<open>\<open>downloadFile\<close> of the earlier variant builds the URL from the entry and then
  runs the same request, status test and write as \<open>downloadFile\<close> above (its lines
  141-167 are lines 152-178 of download.go, with the entry's credentials).\<close>

definition downloadFile_part_000 ::
  "env \<Rightarrow> world \<Rightarrow> Entry \<Rightarrow> string \<Rightarrow> string \<Rightarrow> error option outcome \<times> world" where
  "downloadFile_part_000 env w entry chartPath filepath =
     (let url = URL entry @ ''/'' @ chartPath;
          url = (if strings_HasSuffix (URL entry) ''/'' then URL entry @ chartPath else url)
      in downloadFile env w url (Username entry) (Password entry) filepath)"

definition downloadChart_part_000 ::
  "Downloader \<Rightarrow> env \<Rightarrow> world \<Rightarrow> string \<Rightarrow> string \<Rightarrow> (string \<times> error option) outcome \<times> world" where
  "downloadChart_part_000 d env w name version =
     (let (repo, chart) = getRepoAndChart name
      in if repo = [] \<and> chart = []
         then (Returns ([], Some (ErrorsNew ''cannot parse chart name'')), w)
         else
           (let dir = ChartsDir;
                checkPath = getChartPath name version
            in if version \<noteq> [] \<and> os_Stat env w checkPath \<noteq> StatNotExist
               then (Returns (checkPath, None), w)
               else
                 (case getRepoInfo_part_000 d env w repo (ns d) of
                    (Inl err, w1) \<Rightarrow> (Returns ([], Some err), w1)
                  | (Inr entry, w1) \<Rightarrow>
                      (let chartResourceName = ToLower env chart @ ''.'' @ repo;
                           w2 = call (GetChartCall chartResourceName version (ns d) (cfg d)) w1
                       in case GetChartPath env chartResourceName version (ns d) (cfg d) of
                            Inl err \<Rightarrow> (Returns ([], Some err), w2)
                          | Inr path \<Rightarrow>
                              (case ensureDir env w2 dir of
                                 (Some err, w3) \<Rightarrow> (Returns ([], Some err), w3)
                               | (None, w3) \<Rightarrow>
                                   (let segs = strings_Split path (CHR ''/'')
                                    in if length segs \<le> 1 then (Panics IndexOutOfRange, w3)
                                       else
                                         (let fileName = segs ! 1;
                                              filePath = dir @ ''/'' @ repo @ ''-'' @ fileName
                                          in if os_Stat env w3 filePath \<noteq> StatNotExist
                                             then (Returns (filePath, None), w3)
                                             else
                                               (case downloadFile_part_000 env w3 entry path filePath of
                                                  (Panics p, w4) \<Rightarrow> (Panics p, w4)
                                                | (Returns (Some err), w4) \<Rightarrow> (Returns ([], Some err), w4)
                                                | (Returns None, w4) \<Rightarrow> (Returns (filePath, None), w4)))))))))"

subsection \<open>Definitions used to state the properties\<close>

text \<open>The request that \<open>downloadFile\<close> hands to the HTTP client when
  \<open>http.NewRequest\<close> succeeds (lines 152-155).\<close>

definition requestFor :: "string \<Rightarrow> string \<Rightarrow> string \<Rightarrow> request" where
  "requestFor url username password =
     \<lparr>req_url = url,
      req_auth = (if username \<noteq> [] \<and> password \<noteq> [] then Some (username, password) else None)\<rparr>"

text \<open>A field of the secret as \<open>fetchAuthFromSecret\<close> reads it (lines 287-294): absent
  is the empty string, present is trimmed with \<open>strings.Trim(_, "\n")\<close>.\<close>

definition secretField :: "(string \<rightharpoonup> string) \<Rightarrow> string \<Rightarrow> string" where
  "secretField sdata k = (case sdata k of Some v \<Rightarrow> strings_Trim v [CHR 0x0A] | None \<Rightarrow> [])"

text \<open>The specification's wording of the trimming, "trimming trailing newline
  characters": only the end of the string is cut.\<close>

definition spec_trimTrailingNewlines :: "string \<Rightarrow> string" where
  "spec_trimTrailingNewlines s = rev (dropWhile (\<lambda>c. c = CHR 0x0A) (rev s))"

text \<open>The destination of \<open>downloadChartFromHTTP\<close> (lines 194-197): the request's name
  and the last segment of the URL, under \<open>ChartsDir\<close>.\<close>

definition httpFilePath :: "HelmRequest \<Rightarrow> string \<Rightarrow> string" where
  "httpFilePath hr url = ChartsDir @ ''/'' @ Name hr @ ''-'' @ splitChartNameFromURL url"

subsection \<open>A concrete environment\<close>

text \<open>An environment in which every collaborator answers and no file-system call
  fails; the examples below change one field at a time.\<close>

definition env0 :: env where
  "env0 = \<lparr>
     ToLower = asciiToLower,
     GetChartRepo = (\<lambda>name nsp c. Inr \<lparr>URL = ''https://charts.example.com'', Username = [], Password = []\<rparr>),
     GetChart = (\<lambda>name version nsp c. Inr \<lparr>URLs = [''charts/nginx-1.2.3.tgz''], Digest = ''abc''\<rparr>),
     GetChartPath = (\<lambda>name version nsp c. Inr ''charts/nginx-1.2.3.tgz''),
     NewForConfig = (\<lambda>c. Inr c),
     SecretsGet = (\<lambda>c nsp name. Inl (StatusNotFound ''secrets not found'')),
     NewRequestErr = (\<lambda>url. None),
     HTTPDo = (\<lambda>r. Inr \<lparr>StatusCode = 200, Status = ''200 OK'', Body = Inr ''tgz''\<rparr>),
     RegistryNewClient = Inr ''client'',
     ParseReference = (\<lambda>s. Inr s),
     PullChart = (\<lambda>c r u p. None),
     LoadChart = (\<lambda>c r. Inr r),
     StatFails = (\<lambda>p. False),
     MkdirAllErr = (\<lambda>p. None),
     RemoveFails = (\<lambda>p. False),
     WriteFileErr = (\<lambda>p d. None)\<rparr>"

definition world0 :: world where
  "world0 = \<lparr>files = Map.empty, dirs = {}, repoCache = Map.empty, trace = []\<rparr>"

definition d0 :: Downloader where
  "d0 = \<lparr>incfg = ''in-cluster'', cfg = ''cluster'', ns = ''system''\<rparr>"

text \<open>The secret exists only for the client built from \<open>cfg\<close>.\<close>

definition env_secret :: "(string \<rightharpoonup> string) \<Rightarrow> env" where
  "env_secret sdata = env0\<lparr>SecretsGet :=
     (\<lambda>c nsp name. if c = ''cluster'' then Inr sdata else Inl (StatusNotFound ''secrets not found''))\<rparr>"

definition env_status :: "int \<Rightarrow> string \<Rightarrow> env" where
  "env_status code text =
     env0\<lparr>HTTPDo := (\<lambda>r. Inr \<lparr>StatusCode = code, Status = text, Body = Inr ''tgz''\<rparr>)\<rparr>"

definition env_badurl :: env where
  "env_badurl = env0\<lparr>NewRequestErr :=
     (\<lambda>url. if url = ''http://%zz'' then Some (OtherError ''invalid URL escape'') else None)\<rparr>"

definition env_norepo :: env where
  "env_norepo = env0\<lparr>GetChartRepo := (\<lambda>name nsp c. Inl (StatusNotFound ''chartrepo not found''))\<rparr>"

text \<open>The metadata store resolves the chart to a path with no directory part.\<close>

definition env_flatpath :: env where
  "env_flatpath = env0\<lparr>
     GetChart := (\<lambda>name version nsp c. Inr \<lparr>URLs = [''nginx-1.2.3.tgz''], Digest = ''abc''\<rparr>),
     GetChartPath := (\<lambda>name version nsp c. Inr ''nginx-1.2.3.tgz'')\<rparr>"

text \<open>The secret is readable with the client of \<open>cfg\<close>; the client of \<open>incfg\<close> is
  refused with an error that is not a not-found error.\<close>

definition env_forbidden :: env where
  "env_forbidden = env0\<lparr>SecretsGet :=
     (\<lambda>c nsp name. if c = ''cluster''
                    then Inr [''username'' \<mapsto> ''admin'', ''password'' \<mapsto> ''pw'']
                    else Inl (OtherError ''secrets is forbidden''))\<rparr>"

text \<open>No client can be built from \<open>cfg\<close>.\<close>

definition env_nocfg :: env where
  "env_nocfg = env0\<lparr>NewForConfig :=
     (\<lambda>c. if c = ''cluster'' then Inl (OtherError ''invalid configuration'') else Inr c)\<rparr>"

definition env_flatpath_nomkdir :: env where
  "env_flatpath_nomkdir = env_flatpath\<lparr>MkdirAllErr := (\<lambda>p. Some (OtherError ''mkdir: permission denied''))\<rparr>"

definition env_unparsable :: env where
  "env_unparsable = (env_secret [''username'' \<mapsto> ''admin'', ''password'' \<mapsto> ''pw''])
     \<lparr>ParseReference := (\<lambda>s. Inl (OtherError ''invalid reference''))\<rparr>"

definition hr_oci :: "string \<Rightarrow> string \<Rightarrow> HelmRequest" where
  "hr_oci repo secretRef =
     \<lparr>Name = ''myapp'', Namespace = ''default'',
      Spec = \<lparr>Source = Some \<lparr>HTTP = None, OCI = Some \<lparr>oci_Repo = repo, oci_SecretRef = secretRef\<rparr>\<rparr>\<rparr>\<rparr>"

definition hr_http :: HelmRequest where
  "hr_http =
     \<lparr>Name = ''myapp'', Namespace = ''default'',
      Spec = \<lparr>Source = Some \<lparr>HTTP = Some \<lparr>http_URL = ''https://files.example.com/pkg/app-2.0.tgz'',
                                            http_SecretRef = []\<rparr>,
                              OCI = None\<rparr>\<rparr>\<rparr>"

text \<open>A world in which both destination files are already in the charts directory.\<close>

definition world_cached :: world where
  "world_cached =
     \<lparr>files = [''/tmp/helm-charts/stable-abc-nginx-1.2.3.tgz'' \<mapsto> ''old'',
               ''/tmp/helm-charts/myapp-app-2.0.tgz'' \<mapsto> ''old''],
      dirs = {''/tmp/helm-charts''}, repoCache = Map.empty, trace = []\<rparr>"

section \<open>Properties\<close>

subsection \<open>Trimming\<close>

lemma rev_dropWhile_takeWhile:
  "xs = rev (dropWhile P (rev xs)) @ rev (takeWhile P (rev xs))"
proof -
  have "rev (takeWhile P (rev xs) @ dropWhile P (rev xs)) = rev (rev xs)"
    by (simp only: takeWhile_dropWhile_id)
  then show ?thesis by (simp only: rev_append rev_rev_ident)
qed

lemma strings_Trim_middle:
  "dropWhile (\<lambda>c. c \<in> set cs) s =
     strings_Trim s cs @ rev (takeWhile (\<lambda>c. c \<in> set cs) (rev (dropWhile (\<lambda>c. c \<in> set cs) s)))"
  unfolding strings_Trim_def by (rule rev_dropWhile_takeWhile)

lemma strings_Trim_decomp:
  "\<exists>a b. s = a @ strings_Trim s cs @ b \<and> set a \<subseteq> set cs \<and> set b \<subseteq> set cs"
proof -
  let ?P = "\<lambda>c. c \<in> set cs"
  let ?a = "takeWhile ?P s"
  let ?b = "rev (takeWhile ?P (rev (dropWhile ?P s)))"
  have "s = ?a @ dropWhile ?P s" by simp
  then have "s = ?a @ strings_Trim s cs @ ?b"
    using strings_Trim_middle [of cs s] by simp
  moreover have "set ?a \<subseteq> set cs"
    by (auto dest: set_takeWhileD)
  moreover have "set ?b \<subseteq> set cs"
    by (auto dest: set_takeWhileD)
  ultimately show ?thesis by blast
qed

lemma strings_Trim_ends:
  assumes "strings_Trim s cs \<noteq> []"
  shows "hd (strings_Trim s cs) \<notin> set cs \<and> last (strings_Trim s cs) \<notin> set cs"
proof -
  let ?P = "\<lambda>c. c \<in> set cs"
  let ?m = "dropWhile ?P s"
  let ?r = "dropWhile ?P (rev ?m)"
  from assms have r: "?r \<noteq> []" by (simp add: strings_Trim_def)
  have "last (strings_Trim s cs) = hd ?r"
    using r by (simp add: strings_Trim_def last_rev)
  moreover have "\<not> ?P (hd ?r)" using r by (rule hd_dropWhile)
  ultimately have L: "last (strings_Trim s cs) \<notin> set cs" by simp
  have "hd ?m = hd (strings_Trim s cs)"
    using assms strings_Trim_middle [of cs s] by (metis hd_append2)
  moreover have "?m \<noteq> []"
    using assms strings_Trim_middle [of cs s] by (metis append_is_Nil_conv)
  then have "\<not> ?P (hd ?m)" by (rule hd_dropWhile)
  ultimately show ?thesis using L by simp
qed

lemma secretField_trimmed:
  assumes "sdata k = Some v"
  shows "(\<exists>a b. v = a @ secretField sdata k @ b \<and> set a \<subseteq> {CHR 0x0A} \<and> set b \<subseteq> {CHR 0x0A}) \<and>
         (secretField sdata k \<noteq> [] \<longrightarrow>
            hd (secretField sdata k) \<noteq> CHR 0x0A \<and> last (secretField sdata k) \<noteq> CHR 0x0A)"
  using assms strings_Trim_decomp [of v "[CHR 0x0A]"] strings_Trim_ends [of v "[CHR 0x0A]"]
  by (simp add: secretField_def)

subsection \<open>The HTTP fetch\<close>

lemma downloadFile_request:
  "NewRequestErr env url = None \<Longrightarrow>
   downloadFile env w url username password filepath =
     (let r = requestFor url username password; w1 = call (HTTPDoCall r) w
      in case HTTPDo env r of
           Inl err \<Rightarrow> (Returns (Some err), w1)
         | Inr resp \<Rightarrow>
             if StatusCode resp \<noteq> 200
             then (Returns (Some (ErrorsNew (''failed to fetch '' @ url @ '' : '' @ Status resp))), w1)
             else (case Body resp of
                     Inl err \<Rightarrow> (Returns (Some err), w1)
                   | Inr buf \<Rightarrow>
                       (case ioutil_WriteFile env w1 filepath buf of
                          (Some err, w2) \<Rightarrow> (Returns (Some err), w2)
                        | (None, w2) \<Rightarrow> (Returns None, w2))))"
  by (simp add: downloadFile_def http_NewRequest_def requestFor_def SetBasicAuth_def Let_def)

lemma downloadFile_nil_request:
  "NewRequestErr env url = Some e \<Longrightarrow>
   downloadFile env w url username password filepath = (Panics NilPointerDereference, w)"
  by (simp add: downloadFile_def http_NewRequest_def)

text \<open>
  C3 (amended). When the request can be built and the transport answers, the only
  status that counts as success is 200: with status 200, a readable body and a write
  that succeeds, \<open>downloadFile\<close> returns nil and the destination holds the body; with
  any other status, other 2xx codes included, it returns the error
  \<open>failed to fetch <url> : <status text>\<close> and writes nothing.
\<close>

theorem downloadFile_status:
  assumes "NewRequestErr env url = None"
    and "HTTPDo env (requestFor url username password) = Inr resp"
  shows "(StatusCode resp \<noteq> 200 \<longrightarrow>
            downloadFile env w url username password filepath =
              (Returns (Some (ErrorsNew (''failed to fetch '' @ url @ '' : '' @ Status resp))),
               call (HTTPDoCall (requestFor url username password)) w)) \<and>
         (StatusCode resp = 200 \<longrightarrow>
            (\<forall>buf. Body resp = Inr buf \<and> WriteFileErr env filepath buf = None \<longrightarrow>
               downloadFile env w url username password filepath =
                 (Returns None,
                  (call (HTTPDoCall (requestFor url username password)) w)
                    \<lparr>files := (files w)(filepath \<mapsto> buf)\<rparr>)))"
  using assms
  by (simp add: downloadFile_request ioutil_WriteFile_def call_def Let_def)

theorem downloadFile_status_witness:
  "NewRequestErr (env_status 404 ''404 Not Found'') ''https://files.example.com/a.tgz'' = None \<and>
   HTTPDo (env_status 404 ''404 Not Found'') (requestFor ''https://files.example.com/a.tgz'' [] [])
     = Inr \<lparr>StatusCode = 404, Status = ''404 Not Found'', Body = Inr ''tgz''\<rparr> \<and>
   downloadFile (env_status 404 ''404 Not Found'') world0 ''https://files.example.com/a.tgz'' [] []
       ''/tmp/helm-charts/a.tgz'' =
     (Returns (Some (ErrorsNew ''failed to fetch https://files.example.com/a.tgz : 404 Not Found'')),
      call (HTTPDoCall (requestFor ''https://files.example.com/a.tgz'' [] [])) world0)"
  using downloadFile_status
    [of "env_status 404 ''404 Not Found''" "''https://files.example.com/a.tgz''" "[]" "[]"
        "\<lparr>StatusCode = 404, Status = ''404 Not Found'', Body = Inr ''tgz''\<rparr>"
        world0 "''/tmp/helm-charts/a.tgz''"]
  by (simp add: env_status_def env0_def)

text \<open>The claim as written fails at status 201: the response is a 2xx, yet
  \<open>downloadFile\<close> returns an error and the destination is not written.\<close>

theorem downloadFile_2xx_counterexample:
  "fst (downloadFile (env_status 201 ''201 Created'') world0 ''https://files.example.com/a.tgz'' [] []
          ''/tmp/helm-charts/a.tgz'')
     = Returns (Some (ErrorsNew ''failed to fetch https://files.example.com/a.tgz : 201 Created'')) \<and>
   files (snd (downloadFile (env_status 201 ''201 Created'') world0 ''https://files.example.com/a.tgz''
          [] [] ''/tmp/helm-charts/a.tgz'')) ''/tmp/helm-charts/a.tgz'' = None"
  by (simp add: downloadFile_request env_status_def env0_def world0_def call_def Let_def)

text \<open>
  C10. \<open>downloadFile\<close> never looks at the error of \<open>http.NewRequest\<close>: for every URL
  on which request construction fails the request is nil, the next use of it
  dereferences nil, and the call panics instead of returning an error; no request
  is sent and no file is written.
\<close>

theorem downloadFile_request_error_discarded:
  "NewRequestErr env url = Some e \<Longrightarrow>
   downloadFile env w url username password filepath = (Panics NilPointerDereference, w)"
  by (simp add: downloadFile_def http_NewRequest_def)

theorem downloadFile_request_error_discarded_witness:
  "NewRequestErr env_badurl ''http://%zz'' = Some (OtherError ''invalid URL escape'') \<and>
   downloadFile env_badurl world0 ''http://%zz'' ''admin'' ''pw'' ''/tmp/helm-charts/x''
     = (Panics NilPointerDereference, world0)"
  using downloadFile_request_error_discarded
    [of env_badurl "''http://%zz''" "OtherError ''invalid URL escape''" world0
        "''admin''" "''pw''" "''/tmp/helm-charts/x''"]
  by (simp add: env_badurl_def env0_def)

subsection \<open>Credentials\<close>

text \<open>
  C4 (amended). \<open>fetchAuthFromSecret\<close> reads the secret first with the client built from
  \<open>incfg\<close>, the in-cluster configuration, not with the one of \<open>cfg\<close>. If that client
  cannot be built the error is returned and nothing is read. When the first read fails
  with a not-found error, and only then, the client of \<open>cfg\<close> is built and, if it can
  be built, the secret is read with it exactly once; if it cannot, that error is
  returned with no second read. Any other error of the first read is returned at once
  with no second read, and an error of the second read is returned as it is.
\<close>

theorem fetchAuthFromSecret_scopes:
  "(\<forall>e. NewForConfig env (incfg d) = Inl e \<longrightarrow>
      fetchAuthFromSecret d env w name namespace = (([], [], Some e), w)) \<and>
   (\<forall>inkc. NewForConfig env (incfg d) = Inr inkc \<longrightarrow>
      (\<exists>evs. trace (snd (fetchAuthFromSecret d env w name namespace))
                = trace w @ SecretsGetCall inkc namespace name # evs
              \<and> (evs = [] \<or> (\<exists>kc. NewForConfig env (cfg d) = Inr kc
                                  \<and> evs = [SecretsGetCall kc namespace name]))) \<and>
      ((\<exists>kc. NewForConfig env (cfg d) = Inr kc \<and>
              trace (snd (fetchAuthFromSecret d env w name namespace))
                = trace w @ [SecretsGetCall inkc namespace name, SecretsGetCall kc namespace name])
        \<longleftrightarrow> (\<exists>e. SecretsGet env inkc namespace name = Inl e \<and> IsNotFound e)
             \<and> (\<exists>kc. NewForConfig env (cfg d) = Inr kc)) \<and>
      (\<forall>e. SecretsGet env inkc namespace name = Inl e \<and> \<not> IsNotFound e \<longrightarrow>
           fetchAuthFromSecret d env w name namespace
             = (([], [], Some e), call (SecretsGetCall inkc namespace name) w)) \<and>
      (\<forall>e eI. SecretsGet env inkc namespace name = Inl e \<and> IsNotFound e \<and>
              NewForConfig env (cfg d) = Inl eI \<longrightarrow>
           fetchAuthFromSecret d env w name namespace
             = (([], [], Some eI), call (SecretsGetCall inkc namespace name) w)) \<and>
      (\<forall>e kc e2. SecretsGet env inkc namespace name = Inl e \<and> IsNotFound e \<and>
              NewForConfig env (cfg d) = Inr kc \<and> SecretsGet env kc namespace name = Inl e2 \<longrightarrow>
           fst (fetchAuthFromSecret d env w name namespace) = ([], [], Some e2)))"
proof (intro conjI allI impI)
  fix e assume "NewForConfig env (incfg d) = Inl e"
  then show "fetchAuthFromSecret d env w name namespace = (([], [], Some e), w)"
    by (simp add: fetchAuthFromSecret_def)
next
  fix inkc assume i: "NewForConfig env (incfg d) = Inr inkc"
  show "\<exists>evs. trace (snd (fetchAuthFromSecret d env w name namespace))
                = trace w @ SecretsGetCall inkc namespace name # evs
              \<and> (evs = [] \<or> (\<exists>kc. NewForConfig env (cfg d) = Inr kc
                                  \<and> evs = [SecretsGetCall kc namespace name]))"
    using i
    by (cases "SecretsGet env inkc namespace name"; cases "NewForConfig env (cfg d)")
       (auto simp: fetchAuthFromSecret_def call_def Let_def split: sum.splits)
next
  fix inkc assume i: "NewForConfig env (incfg d) = Inr inkc"
  show "(\<exists>kc. NewForConfig env (cfg d) = Inr kc \<and>
              trace (snd (fetchAuthFromSecret d env w name namespace))
                = trace w @ [SecretsGetCall inkc namespace name, SecretsGetCall kc namespace name])
        \<longleftrightarrow> (\<exists>e. SecretsGet env inkc namespace name = Inl e \<and> IsNotFound e)
             \<and> (\<exists>kc. NewForConfig env (cfg d) = Inr kc)"
    using i
    by (cases "SecretsGet env inkc namespace name"; cases "NewForConfig env (cfg d)")
       (auto simp: fetchAuthFromSecret_def call_def Let_def split: sum.splits)
next
  fix inkc e
  assume "NewForConfig env (incfg d) = Inr inkc"
    and "SecretsGet env inkc namespace name = Inl e \<and> \<not> IsNotFound e"
  then show "fetchAuthFromSecret d env w name namespace
             = (([], [], Some e), call (SecretsGetCall inkc namespace name) w)"
    by (simp add: fetchAuthFromSecret_def Let_def)
next
  fix inkc e eI
  assume "NewForConfig env (incfg d) = Inr inkc"
    and "SecretsGet env inkc namespace name = Inl e \<and> IsNotFound e \<and>
              NewForConfig env (cfg d) = Inl eI"
  then show "fetchAuthFromSecret d env w name namespace
             = (([], [], Some eI), call (SecretsGetCall inkc namespace name) w)"
    by (simp add: fetchAuthFromSecret_def Let_def)
next
  fix inkc e kc e2
  assume "NewForConfig env (incfg d) = Inr inkc"
    and "SecretsGet env inkc namespace name = Inl e \<and> IsNotFound e \<and>
              NewForConfig env (cfg d) = Inr kc \<and> SecretsGet env kc namespace name = Inl e2"
  then show "fst (fetchAuthFromSecret d env w name namespace) = ([], [], Some e2)"
    by (simp add: fetchAuthFromSecret_def Let_def)
qed

theorem fetchAuthFromSecret_scopes_witness:
  "NewForConfig (env_secret [''username'' \<mapsto> ''admin'', ''password'' \<mapsto> ''pw'']) (incfg d0)
     = Inr ''in-cluster'' \<and>
   NewForConfig (env_secret [''username'' \<mapsto> ''admin'', ''password'' \<mapsto> ''pw'']) (cfg d0)
     = Inr ''cluster'' \<and>
   SecretsGet (env_secret [''username'' \<mapsto> ''admin'', ''password'' \<mapsto> ''pw''])
       ''in-cluster'' ''default'' ''regcred'' = Inl (StatusNotFound ''secrets not found'') \<and>
   IsNotFound (StatusNotFound ''secrets not found'') \<and>
   trace (snd (fetchAuthFromSecret d0 (env_secret [''username'' \<mapsto> ''admin'', ''password'' \<mapsto> ''pw''])
       world0 ''regcred'' ''default''))
     = trace world0 @ [SecretsGetCall ''in-cluster'' ''default'' ''regcred'',
                       SecretsGetCall ''cluster'' ''default'' ''regcred'']"
proof -
  let ?env = "env_secret [''username'' \<mapsto> ''admin'', ''password'' \<mapsto> ''pw'']"
  have 1: "NewForConfig ?env (incfg d0) = Inr ''in-cluster''"
    and 2: "NewForConfig ?env (cfg d0) = Inr ''cluster''"
    and 3: "SecretsGet ?env ''in-cluster'' ''default'' ''regcred'' = Inl (StatusNotFound ''secrets not found'')"
    by (simp_all add: env_secret_def env0_def d0_def)
  note t = fetchAuthFromSecret_scopes [of ?env d0 world0 "''regcred''" "''default''",
      THEN conjunct2, rule_format, OF 1, THEN conjunct2, THEN conjunct1]
  have "(\<exists>e. SecretsGet ?env ''in-cluster'' ''default'' ''regcred'' = Inl e \<and> IsNotFound e)
             \<and> (\<exists>kc. NewForConfig ?env (cfg d0) = Inr kc)"
    using 2 3 by simp
  with t have "\<exists>kc. NewForConfig ?env (cfg d0) = Inr kc \<and>
              trace (snd (fetchAuthFromSecret d0 ?env world0 ''regcred'' ''default''))
                = trace world0 @ [SecretsGetCall ''in-cluster'' ''default'' ''regcred'',
                                  SecretsGetCall kc ''default'' ''regcred'']"
    by blast
  with 1 2 3 show ?thesis by auto
qed

text \<open>The claim as written, with the caller's cluster configuration as the first
  scope, fails: the secret is readable with the client of \<open>cfg\<close>, yet the call reads
  with the client of \<open>incfg\<close>, is refused, and returns that error. And when the first
  read is not-found and the client of \<open>cfg\<close> cannot be built, there is no second
  read.\<close>

theorem fetchAuthFromSecret_scope_order_counterexample:
  "SecretsGet env_forbidden ''cluster'' ''default'' ''regcred''
     = Inr [''username'' \<mapsto> ''admin'', ''password'' \<mapsto> ''pw''] \<and>
   fetchAuthFromSecret d0 env_forbidden world0 ''regcred'' ''default''
     = (([], [], Some (OtherError ''secrets is forbidden'')),
        world0\<lparr>trace := [SecretsGetCall ''in-cluster'' ''default'' ''regcred'']\<rparr>) \<and>
   SecretsGet env_nocfg ''in-cluster'' ''default'' ''regcred''
     = Inl (StatusNotFound ''secrets not found'') \<and>
   fetchAuthFromSecret d0 env_nocfg world0 ''regcred'' ''default''
     = (([], [], Some (OtherError ''invalid configuration'')),
        world0\<lparr>trace := [SecretsGetCall ''in-cluster'' ''default'' ''regcred'']\<rparr>)"
  by (simp add: fetchAuthFromSecret_def env_forbidden_def env_nocfg_def env0_def d0_def world0_def
        call_def Let_def)

text \<open>
  C5 (amended). For every secret that was read, by the first client or by the second
  after a not-found answer, each of \<open>username\<close> and \<open>password\<close> is taken with newline
  characters removed at both ends, leading as well as trailing (an absent field is
  empty); if either is then empty the result is the error
  \<open>can not find username or password in the secret <namespace>/<name>\<close> with two empty
  strings, and otherwise the two non-empty strings with no error: never one of the two
  alone.
\<close>

theorem fetchAuthFromSecret_fields:
  assumes "NewForConfig env (incfg d) = Inr inkc"
    and "SecretsGet env inkc namespace name = Inr s
         \<or> (\<exists>e kc. SecretsGet env inkc namespace name = Inl e \<and> IsNotFound e
               \<and> NewForConfig env (cfg d) = Inr kc \<and> SecretsGet env kc namespace name = Inr s)"
  shows "fst (fetchAuthFromSecret d env w name namespace) =
           (if secretField s ''username'' = [] \<or> secretField s ''password'' = []
            then ([], [], Some (ErrorsNew
                   (''can not find username or password in the secret '' @ namespace @ ''/'' @ name)))
            else (secretField s ''username'', secretField s ''password'', None)) \<and>
         (\<forall>k v. s k = Some v \<longrightarrow>
            (\<exists>a b. v = a @ secretField s k @ b \<and> set a \<subseteq> {CHR 0x0A} \<and> set b \<subseteq> {CHR 0x0A}) \<and>
            (secretField s k \<noteq> [] \<longrightarrow>
               hd (secretField s k) \<noteq> CHR 0x0A \<and> last (secretField s k) \<noteq> CHR 0x0A))"
proof -
  have "fst (fetchAuthFromSecret d env w name namespace) = authFromSecret s name namespace"
    using assms
    by (auto simp: fetchAuthFromSecret_def Let_def split: sum.splits)
  moreover have "authFromSecret s name namespace =
           (if secretField s ''username'' = [] \<or> secretField s ''password'' = []
            then ([], [], Some (ErrorsNew
                   (''can not find username or password in the secret '' @ namespace @ ''/'' @ name)))
            else (secretField s ''username'', secretField s ''password'', None))"
    by (simp add: authFromSecret_def secretField_def Let_def)
  ultimately show ?thesis
    using secretField_trimmed [of s] by presburger
qed

theorem fetchAuthFromSecret_fields_witness:
  "NewForConfig (env_secret [''username'' \<mapsto> ''admin'']) (incfg d0) = Inr ''in-cluster'' \<and>
   SecretsGet (env_secret [''username'' \<mapsto> ''admin'']) ''in-cluster'' ''default'' ''regcred''
     = Inl (StatusNotFound ''secrets not found'') \<and>
   IsNotFound (StatusNotFound ''secrets not found'') \<and>
   NewForConfig (env_secret [''username'' \<mapsto> ''admin'']) (cfg d0) = Inr ''cluster'' \<and>
   SecretsGet (env_secret [''username'' \<mapsto> ''admin'']) ''cluster'' ''default'' ''regcred''
     = Inr [''username'' \<mapsto> ''admin''] \<and>
   fst (fetchAuthFromSecret d0 (env_secret [''username'' \<mapsto> ''admin'']) world0 ''regcred'' ''default'')
     = ([], [], Some (ErrorsNew ''can not find username or password in the secret default/regcred''))"
  using fetchAuthFromSecret_fields
    [of "env_secret [''username'' \<mapsto> ''admin'']" d0 "''in-cluster''" "''default''" "''regcred''"
        "[''username'' \<mapsto> ''admin'']" world0]
  by (simp add: env_secret_def env0_def d0_def secretField_def)

text \<open>The claim as written fails on a field that starts with a newline: the code
  returns \<open>admin\<close>, trimming at the end only would keep the leading newline.\<close>

theorem fetchAuthFromSecret_trim_counterexample:
  "fst (fetchAuthFromSecret d0
          (env_secret [''username'' \<mapsto> CHR 0x0A # ''admin'', ''password'' \<mapsto> ''pw''])
          world0 ''regcred'' ''default'') = (''admin'', ''pw'', None) \<and>
   spec_trimTrailingNewlines (CHR 0x0A # ''admin'') = CHR 0x0A # ''admin'' \<and>
   spec_trimTrailingNewlines (CHR 0x0A # ''admin'') \<noteq> ''admin''"
  by (simp add: fetchAuthFromSecret_def authFromSecret_def strings_Trim_def
        spec_trimTrailingNewlines_def env_secret_def env0_def d0_def Let_def)

subsection \<open>Requests without a source\<close>

text \<open>
  C6. A structured request with no source at all must be refused. On such a request
  \<open>downloadChartFromHTTP\<close> returns the empty path and a nil error, touching nothing,
  where \<open>pullOCIChart\<close> returns the error \<open>invalid chart Source, need OCI type\<close>.
\<close>

theorem downloadChartFromHTTP_nil_source_silent:
  "downloadChartFromHTTP d env w (hr\<lparr>Spec := \<lparr>Source = None\<rparr>\<rparr>) = (Returns ([], None), w) \<and>
   downloadChartFromHTTP d env w (hr\<lparr>Spec := \<lparr>Source = Some \<lparr>HTTP = None, OCI = oci\<rparr>\<rparr>\<rparr>)
     = (Returns ([], None), w) \<and>
   pullOCIChart d env0 w (hr\<lparr>Spec := \<lparr>Source = None\<rparr>\<rparr>)
     = ((None, Some (ErrorsNew ''invalid chart Source, need OCI type'')), w)"
  by (simp add: downloadChartFromHTTP_def pullOCIChart_def invalidSource_def env0_def)

subsection \<open>Parsing the chart name\<close>

lemma strings_Split_length:
  "length (strings_Split s sep) = Suc (length (filter (\<lambda>c. c = sep) s))"
  by (induction s) (auto split: list.splits)

lemma strings_Split_no_sep: "sep \<notin> set s \<Longrightarrow> strings_Split s sep = [s]"
  by (induction s) auto

lemma strings_Split_append:
  "sep \<notin> set a \<Longrightarrow> strings_Split (a @ sep # b) sep = a # strings_Split b sep"
  by (induction a) auto

lemma strings_Split_short: "length (strings_Split s sep) \<le> 1 \<longleftrightarrow> sep \<notin> set s"
  by (auto simp: strings_Split_length filter_empty_conv)

lemma strings_Split_decomp:
  "sep \<in> set s \<Longrightarrow> \<exists>a b. s = a @ sep # b \<and> sep \<notin> set a"
  by (rule split_list_first)

lemma strings_Split_two:
  "strings_Split s sep = [a, b] \<longleftrightarrow> s = a @ sep # b \<and> sep \<notin> set a \<and> sep \<notin> set b"
proof
  assume L: "strings_Split s sep = [a, b]"
  then have "\<not> length (strings_Split s sep) \<le> 1" by simp
  then have "sep \<in> set s" using strings_Split_short [of s sep] by blast
  then obtain a' b' where s: "s = a' @ sep # b'" and a': "sep \<notin> set a'"
    using strings_Split_decomp [of sep s] by blast
  with L have "a' # strings_Split b' sep = [a, b]" by (simp add: strings_Split_append)
  then have aa: "a' = a" and sb: "strings_Split b' sep = [b]" by simp_all
  from sb have "length (strings_Split b' sep) \<le> 1" by simp
  then have nb: "sep \<notin> set b'" using strings_Split_short [of b' sep] by blast
  with sb have "b' = b" by (simp add: strings_Split_no_sep)
  with s a' aa nb show "s = a @ sep # b \<and> sep \<notin> set a \<and> sep \<notin> set b" by simp
next
  assume "s = a @ sep # b \<and> sep \<notin> set a \<and> sep \<notin> set b"
  then show "strings_Split s sep = [a, b]"
    by (simp add: strings_Split_append strings_Split_no_sep)
qed

lemma getRepoAndChart_two:
  "sep = CHR ''/'' \<Longrightarrow> sep \<notin> set a \<Longrightarrow> sep \<notin> set b \<Longrightarrow> getRepoAndChart (a @ sep # b) = (a, b)"
  by (simp add: getRepoAndChart_def strings_Split_append strings_Split_no_sep)

lemma getRepoAndChart_sentinel:
  "getRepoAndChart name = ([], []) \<longleftrightarrow>
     \<not> (\<exists>a b. name = a @ CHR ''/'' # b \<and> CHR ''/'' \<notin> set a \<and> CHR ''/'' \<notin> set b \<and> (a \<noteq> [] \<or> b \<noteq> []))"
proof (cases "length (strings_Split name (CHR ''/'')) = 2")
  case True
  then obtain a b where ab: "strings_Split name (CHR ''/'') = [a, b]"
    by (auto simp: length_Suc_conv numeral_2_eq_2)
  then have n: "name = a @ CHR ''/'' # b" "CHR ''/'' \<notin> set a" "CHR ''/'' \<notin> set b"
    by (simp_all add: strings_Split_two)
  have g: "getRepoAndChart name = (a, b)" using ab by (simp add: getRepoAndChart_def)
  show ?thesis
  proof
    assume "getRepoAndChart name = ([], [])"
    with g have e: "a = []" "b = []" by simp_all
    show "\<not> (\<exists>a b. name = a @ CHR ''/'' # b \<and> CHR ''/'' \<notin> set a \<and> CHR ''/'' \<notin> set b \<and> (a \<noteq> [] \<or> b \<noteq> []))"
    proof
      assume "\<exists>a b. name = a @ CHR ''/'' # b \<and> CHR ''/'' \<notin> set a \<and> CHR ''/'' \<notin> set b \<and> (a \<noteq> [] \<or> b \<noteq> [])"
      then obtain a' b' where "name = a' @ CHR ''/'' # b' \<and> CHR ''/'' \<notin> set a' \<and> CHR ''/'' \<notin> set b'"
        and "a' \<noteq> [] \<or> b' \<noteq> []" by blast
      then have "strings_Split name (CHR ''/'') = [a', b']" "a' \<noteq> [] \<or> b' \<noteq> []"
        using strings_Split_two [of name "CHR ''/''" a' b'] by simp_all
      with ab e show False by simp
    qed
  next
    assume "\<not> (\<exists>a b. name = a @ CHR ''/'' # b \<and> CHR ''/'' \<notin> set a \<and> CHR ''/'' \<notin> set b \<and> (a \<noteq> [] \<or> b \<noteq> []))"
    with n have "a = [] \<and> b = []" by blast
    with g show "getRepoAndChart name = ([], [])" by simp
  qed
next
  case False
  then have g: "getRepoAndChart name = ([], [])" by (simp add: getRepoAndChart_def)
  have "\<not> (\<exists>a b. name = a @ CHR ''/'' # b \<and> CHR ''/'' \<notin> set a \<and> CHR ''/'' \<notin> set b)"
  proof
    assume "\<exists>a b. name = a @ CHR ''/'' # b \<and> CHR ''/'' \<notin> set a \<and> CHR ''/'' \<notin> set b"
    then obtain a b where "name = a @ CHR ''/'' # b \<and> CHR ''/'' \<notin> set a \<and> CHR ''/'' \<notin> set b"
      by blast
    then have "strings_Split name (CHR ''/'') = [a, b]"
      using strings_Split_two [of name "CHR ''/''" a b] by simp
    with False show False by simp
  qed
  with g show ?thesis by blast
qed


subsection \<open>The OCI pull\<close>

lemma fetchAuthFromSecret_world:
  "\<exists>evs. snd (fetchAuthFromSecret d env w name namespace) = w\<lparr>trace := trace w @ evs\<rparr> \<and>
         (\<forall>e\<in>set evs. \<exists>c. e = SecretsGetCall c namespace name)"
proof (cases "NewForConfig env (incfg d)")
  case (Inl e)
  then have "snd (fetchAuthFromSecret d env w name namespace) = w\<lparr>trace := trace w @ []\<rparr>"
    by (simp add: fetchAuthFromSecret_def)
  then show ?thesis by (intro exI [of _ "[]"]) simp
next
  case (Inr inkc)
  let ?A = "SecretsGetCall inkc namespace name"
  show ?thesis
  proof (cases "\<exists>e. SecretsGet env inkc namespace name = Inl e \<and> IsNotFound e
                  \<and> (\<exists>kc. NewForConfig env (cfg d) = Inr kc)")
    case True
    then obtain e kc where "SecretsGet env inkc namespace name = Inl e" "IsNotFound e"
      "NewForConfig env (cfg d) = Inr kc" by blast
    with Inr have "snd (fetchAuthFromSecret d env w name namespace)
        = w\<lparr>trace := trace w @ [?A, SecretsGetCall kc namespace name]\<rparr>"
      by (simp add: fetchAuthFromSecret_def call_def Let_def split: sum.splits)
    then show ?thesis by (intro exI [of _ "[?A, SecretsGetCall kc namespace name]"]) simp
  next
    case False
    with Inr have "snd (fetchAuthFromSecret d env w name namespace) = w\<lparr>trace := trace w @ [?A]\<rparr>"
      by (auto simp: fetchAuthFromSecret_def call_def Let_def split: sum.splits)
    then show ?thesis by (intro exI [of _ "[?A]"]) simp
  qed
qed

lemma pullOCIChart_parse_error:
  assumes "RegistryNewClient env = Inr client"
    and "Source (Spec hr) = Some src" and "OCI src = Some oci"
    and "ParseReference env (oci_Repo oci) = Inl perr"
  shows "pullOCIChart d env w hr =
           (if oci_SecretRef oci = [] then ((None, Some perr), w)
            else (case fetchAuthFromSecret d env w (oci_SecretRef oci) (Namespace hr) of
                    ((u, p, None), w1) \<Rightarrow> ((None, Some perr), w1)
                  | ((u, p, Some err), w1) \<Rightarrow> ((None, Some err), w1)))"
  using assms
  by (simp add: pullOCIChart_def Let_def split: prod.splits option.splits)

lemma fetchAuthFromSecret_first_read:
  assumes "NewForConfig env (incfg d) = Inr inkc"
  shows "\<exists>evs. trace (snd (fetchAuthFromSecret d env w name namespace))
                 = trace w @ SecretsGetCall inkc namespace name # evs \<and> length evs \<le> 1"
  using assms
  by (cases "SecretsGet env inkc namespace name"; cases "NewForConfig env (cfg d)")
     (auto simp: fetchAuthFromSecret_def call_def Let_def split: sum.splits)

text \<open>
  C7 (amended). For an OCI-source request whose reference does not parse (the registry
  client having been created): without a secret reference the pull returns the parse
  error and makes no call at all. With a secret reference the credentials are resolved
  before the reference is parsed: if the client of \<open>incfg\<close> cannot be built, that error
  is returned with no call; otherwise the secret store is read, once or twice, first
  with that client, and the pull returns the credential error if there is one and the
  parse error otherwise. In every case the only calls made are reads of that secret:
  the registry is never contacted.
\<close>

theorem pullOCIChart_unparsable:
  assumes "RegistryNewClient env = Inr client"
    and "Source (Spec hr) = Some src" and "OCI src = Some oci"
    and "ParseReference env (oci_Repo oci) = Inl perr"
  shows "(oci_SecretRef oci = [] \<longrightarrow> pullOCIChart d env w hr = ((None, Some perr), w)) \<and>
         (oci_SecretRef oci \<noteq> [] \<longrightarrow>
            pullOCIChart d env w hr =
              (case fetchAuthFromSecret d env w (oci_SecretRef oci) (Namespace hr) of
                 ((u, p, None), w1) \<Rightarrow> ((None, Some perr), w1)
               | ((u, p, Some err), w1) \<Rightarrow> ((None, Some err), w1)) \<and>
            (\<forall>eI. NewForConfig env (incfg d) = Inl eI \<longrightarrow>
               pullOCIChart d env w hr = ((None, Some eI), w)) \<and>
            (\<forall>inkc. NewForConfig env (incfg d) = Inr inkc \<longrightarrow>
               (\<exists>evs. trace (snd (pullOCIChart d env w hr))
                        = trace w @ SecretsGetCall inkc (Namespace hr) (oci_SecretRef oci) # evs
                      \<and> length evs \<le> 1))) \<and>
         (\<exists>evs. snd (pullOCIChart d env w hr) = w\<lparr>trace := trace w @ evs\<rparr> \<and>
            (\<forall>e\<in>set evs. \<exists>c. e = SecretsGetCall c (Namespace hr) (oci_SecretRef oci)))"
proof -
  note eq = pullOCIChart_parse_error [OF assms, of d w]
  have sn: "snd (pullOCIChart d env w hr)
        = snd (fetchAuthFromSecret d env w (oci_SecretRef oci) (Namespace hr))"
    if "oci_SecretRef oci \<noteq> []"
    using that eq by (simp split: prod.splits option.splits)
  have A: "\<exists>evs. snd (pullOCIChart d env w hr) = w\<lparr>trace := trace w @ evs\<rparr> \<and>
            (\<forall>e\<in>set evs. \<exists>c. e = SecretsGetCall c (Namespace hr) (oci_SecretRef oci))"
  proof (cases "oci_SecretRef oci = []")
    case True
    with eq have "snd (pullOCIChart d env w hr) = w\<lparr>trace := trace w @ []\<rparr>" by simp
    then show ?thesis by (intro exI [of _ "[]"]) simp
  next
    case False
    then show ?thesis
      using sn fetchAuthFromSecret_world [of d env w "oci_SecretRef oci" "Namespace hr"] by simp
  qed
  have B: "pullOCIChart d env w hr = ((None, Some eI), w)"
    if "oci_SecretRef oci \<noteq> []" "NewForConfig env (incfg d) = Inl eI" for eI
  proof -
    from that(2) have "fetchAuthFromSecret d env w (oci_SecretRef oci) (Namespace hr)
        = (([], [], Some eI), w)"
      by (simp add: fetchAuthFromSecret_def)
    with eq that(1) show ?thesis by simp
  qed
  have C: "\<exists>evs. trace (snd (pullOCIChart d env w hr))
                        = trace w @ SecretsGetCall inkc (Namespace hr) (oci_SecretRef oci) # evs
                      \<and> length evs \<le> 1"
    if "oci_SecretRef oci \<noteq> []" "NewForConfig env (incfg d) = Inr inkc" for inkc
    using sn [OF that(1)] fetchAuthFromSecret_first_read [OF that(2), of w "oci_SecretRef oci" "Namespace hr"]
    by simp
  from eq A B C show ?thesis by simp
qed

theorem pullOCIChart_unparsable_witness:
  "RegistryNewClient env_unparsable = Inr ''client'' \<and>
   Source (Spec (hr_oci ''::bad::'' [])) = Some \<lparr>HTTP = None, OCI = Some \<lparr>oci_Repo = ''::bad::'', oci_SecretRef = []\<rparr>\<rparr> \<and>
   ParseReference env_unparsable ''::bad::'' = Inl (OtherError ''invalid reference'') \<and>
   pullOCIChart d0 env_unparsable world0 (hr_oci ''::bad::'' [])
     = ((None, Some (OtherError ''invalid reference'')), world0)"
  using pullOCIChart_unparsable
    [of env_unparsable "''client''" "hr_oci ''::bad::'' []"
        "\<lparr>HTTP = None, OCI = Some \<lparr>oci_Repo = ''::bad::'', oci_SecretRef = []\<rparr>\<rparr>"
        "\<lparr>oci_Repo = ''::bad::'', oci_SecretRef = []\<rparr>" "OtherError ''invalid reference''" d0 world0]
  by (simp add: env_unparsable_def env_secret_def env0_def hr_oci_def)

text \<open>The claim as written fails when the request names a secret: the reference
  does not parse, and two reads of the secret store have been made.\<close>

theorem pullOCIChart_unparsable_counterexample:
  "ParseReference env_unparsable ''::bad::'' = Inl (OtherError ''invalid reference'') \<and>
   trace (snd (pullOCIChart d0 env_unparsable world0 (hr_oci ''::bad::'' ''regcred'')))
     = [SecretsGetCall ''in-cluster'' ''default'' ''regcred'',
        SecretsGetCall ''cluster'' ''default'' ''regcred''] \<and>
   trace (snd (pullOCIChart d0 env_unparsable world0 (hr_oci ''::bad::'' ''regcred''))) \<noteq> trace world0"
  by (simp add: pullOCIChart_def fetchAuthFromSecret_def authFromSecret_def strings_Trim_def
        env_unparsable_def env_secret_def env0_def hr_oci_def d0_def world0_def call_def Let_def)

subsection \<open>The unchecked index into the chart path\<close>

lemma ensureDir_frame:
  "ensureDir env w dir = (r, w') \<Longrightarrow>
     files w' = files w \<and> trace w' = trace w \<and> repoCache w' = repoCache w \<and>
     (dirs w' = dirs w \<or> dirs w' = insert dir (dirs w))"
  by (auto simp: ensureDir_def os_MkdirAll_def split: if_splits option.splits)

lemma ensureDir_ok:
  "(os_Stat env w dir = StatNotExist \<longrightarrow> MkdirAllErr env dir = None) \<Longrightarrow>
     \<exists>w'. ensureDir env w dir = (None, w')"
  by (auto simp: ensureDir_def os_MkdirAll_def)

lemma getRepoInfo_frame:
  "getRepoInfo d env w name nsp = (r, w') \<Longrightarrow>
     files w' = files w \<and> dirs w' = dirs w \<and>
     (trace w' = trace w \<or> trace w' = trace w @ [GetChartRepoCall name nsp (incfg d)])"
  by (auto simp: getRepoInfo_def call_def Let_def split: option.splits sum.splits)

lemma getRepoInfo_ok:
  "(repoCache w name = None \<longrightarrow> (\<exists>entry. GetChartRepo env name nsp (incfg d) = Inr entry)) \<Longrightarrow>
     \<exists>entry w'. getRepoInfo d env w name nsp = (Inr entry, w')"
  by (auto simp: getRepoInfo_def Let_def split: option.splits)

lemma getRepoInfo_part_000_frame:
  "getRepoInfo_part_000 d env w name nsp = (r, w') \<Longrightarrow>
     files w' = files w \<and> dirs w' = dirs w \<and>
     (trace w' = trace w \<or> trace w' = trace w @ [GetChartRepoCall name nsp (cfg d)])"
  by (auto simp: getRepoInfo_part_000_def call_def Let_def split: option.splits sum.splits)

lemma getRepoInfo_part_000_ok:
  "(repoCache w name = None \<longrightarrow> (\<exists>entry. GetChartRepo env name nsp (cfg d) = Inr entry)) \<Longrightarrow>
     \<exists>entry w'. getRepoInfo_part_000 d env w name nsp = (Inr entry, w')"
  by (auto simp: getRepoInfo_part_000_def Let_def split: option.splits)

lemma os_Stat_cong:
  "files w' = files w \<Longrightarrow> dirs w' = dirs w \<Longrightarrow> os_Stat env w' p = os_Stat env w p"
  by (simp add: os_Stat_def)

lemma downloadFile_panic:
  "fst (downloadFile env w url username password filepath) \<noteq> Panics IndexOutOfRange"
  by (simp add: downloadFile_def http_NewRequest_def Let_def
           split: option.splits sum.splits prod.splits)

lemma downloadFileFromEntry_panic:
  "fst (downloadFileFromEntry env w entry chartPath filepath) \<noteq> Panics IndexOutOfRange"
  by (simp add: downloadFileFromEntry_def Let_def downloadFile_panic)

lemma downloadFile_part_000_panic:
  "fst (downloadFile_part_000 env w entry chartPath filepath) \<noteq> Panics IndexOutOfRange"
  by (simp add: downloadFile_part_000_def Let_def downloadFile_panic)

lemma finish_panic:
  "fst r \<noteq> Panics IndexOutOfRange \<Longrightarrow>
   fst (case r of
          (Panics p, w4) \<Rightarrow> (Panics p, w4)
        | (Returns (Some err), w4) \<Rightarrow> (Returns ([], Some err), w4)
        | (Returns None, w4) \<Rightarrow> (Returns (fp, None), w4)) \<noteq> Panics IndexOutOfRange"
  by (auto split: prod.splits outcome.splits option.splits)

lemma downloadChart_after_lookup:
  assumes "getRepoAndChart name = (repoName, chart)" and "\<not> (repoName = [] \<and> chart = [])"
    and "ensureDir env w ChartsDir = (None, w1)"
    and "getRepoInfo d env w1 repoName (ns d) = (Inr entry, w2)"
    and "GetChart env (ToLower env chart @ ''.'' @ repoName) version (ns d) (incfg d) = Inr cv"
    and "URLs cv = path # rest"
  shows "downloadChart d env w name version =
     (let w3 = call (GetChartCall (ToLower env chart @ ''.'' @ repoName) version (ns d) (incfg d)) w2;
          segs = strings_Split path (CHR ''/'')
      in if length segs \<le> 1 then (Panics IndexOutOfRange, w3)
         else
           (let filePath = ChartsDir @ ''/'' @ repoName @ ''-'' @ Digest cv @ ''-'' @ segs ! 1
            in if os_Stat env w3 filePath \<noteq> StatNotExist
               then (Returns (filePath, None), w3)
               else
                 (case downloadFileFromEntry env w3 entry path filePath of
                    (Panics p, w4) \<Rightarrow> (Panics p, w4)
                  | (Returns (Some err), w4) \<Rightarrow> (Returns ([], Some err), w4)
                  | (Returns None, w4) \<Rightarrow> (Returns (filePath, None), w4))))"
proof -
  from assms(2) have ne: "(repoName = [] \<and> chart = []) = False" by simp
  show ?thesis
    unfolding downloadChart_def Let_def assms(1) prod.case ne if_False assms(3,4,5,6)
      option.case sum.case list.case ..
qed

lemma downloadChart_index_panic:
  assumes "getRepoAndChart name = (repoName, chart)" and "\<not> (repoName = [] \<and> chart = [])"
    and "os_Stat env w ChartsDir = StatNotExist \<longrightarrow> MkdirAllErr env ChartsDir = None"
    and "repoCache w repoName = None \<longrightarrow> (\<exists>entry. GetChartRepo env repoName (ns d) (incfg d) = Inr entry)"
    and "GetChart env (ToLower env chart @ ''.'' @ repoName) version (ns d) (incfg d) = Inr cv"
    and "URLs cv = path # rest"
  shows "fst (downloadChart d env w name version) = Panics IndexOutOfRange \<longleftrightarrow> CHR ''/'' \<notin> set path"
proof -
  obtain w1 where e: "ensureDir env w ChartsDir = (None, w1)"
    using ensureDir_ok [OF assms(3)] by blast
  then have "repoCache w1 = repoCache w" using ensureDir_frame by blast
  with assms(4) obtain entry w2 where g: "getRepoInfo d env w1 repoName (ns d) = (Inr entry, w2)"
    using getRepoInfo_ok [of w1 repoName env "ns d" d] by auto
  note eq = downloadChart_after_lookup [OF assms(1,2) e g assms(5,6)]
  show ?thesis
  proof (cases "CHR ''/'' \<in> set path")
    case False
    then have "length (strings_Split path (CHR ''/'')) \<le> 1"
      using strings_Split_short [of path "CHR ''/''"] by blast
    with eq False show ?thesis by (simp add: Let_def)
  next
    case True
    then have "\<not> length (strings_Split path (CHR ''/'')) \<le> 1"
      using strings_Split_short [of path "CHR ''/''"] by blast
    with eq True show ?thesis
      by (simp add: Let_def finish_panic downloadFileFromEntry_panic)
  qed
qed


lemma downloadChart_part_000_after_lookup:
  assumes "getRepoAndChart name = (repoName, chart)" and "\<not> (repoName = [] \<and> chart = [])"
    and "version = [] \<or> os_Stat env w (getChartPath name version) = StatNotExist"
    and "getRepoInfo_part_000 d env w repoName (ns d) = (Inr entry, w1)"
    and "GetChartPath env (ToLower env chart @ ''.'' @ repoName) version (ns d) (cfg d) = Inr path"
    and "ensureDir env (call (GetChartCall (ToLower env chart @ ''.'' @ repoName) version (ns d) (cfg d)) w1)
           ChartsDir = (None, w3)"
  shows "downloadChart_part_000 d env w name version =
     (let segs = strings_Split path (CHR ''/'')
      in if length segs \<le> 1 then (Panics IndexOutOfRange, w3)
         else
           (let filePath = ChartsDir @ ''/'' @ repoName @ ''-'' @ segs ! 1
            in if os_Stat env w3 filePath \<noteq> StatNotExist
               then (Returns (filePath, None), w3)
               else
                 (case downloadFile_part_000 env w3 entry path filePath of
                    (Panics p, w4) \<Rightarrow> (Panics p, w4)
                  | (Returns (Some err), w4) \<Rightarrow> (Returns ([], Some err), w4)
                  | (Returns None, w4) \<Rightarrow> (Returns (filePath, None), w4))))"
proof -
  from assms(2) have ne: "(repoName = [] \<and> chart = []) = False" by simp
  from assms(3) have nc: "(version \<noteq> [] \<and> os_Stat env w (getChartPath name version) \<noteq> StatNotExist) = False"
    by auto
  show ?thesis
    unfolding downloadChart_part_000_def Let_def assms(1) prod.case ne nc if_False assms(4,5,6)
      option.case sum.case list.case ..
qed

lemma downloadChart_part_000_index_panic:
  assumes "getRepoAndChart name = (repoName, chart)" and "\<not> (repoName = [] \<and> chart = [])"
    and "os_Stat env w ChartsDir = StatNotExist \<longrightarrow> MkdirAllErr env ChartsDir = None"
    and "version = [] \<or> os_Stat env w (getChartPath name version) = StatNotExist"
    and "repoCache w repoName = None \<longrightarrow> (\<exists>entry. GetChartRepo env repoName (ns d) (cfg d) = Inr entry)"
    and "GetChartPath env (ToLower env chart @ ''.'' @ repoName) version (ns d) (cfg d) = Inr path"
  shows "fst (downloadChart_part_000 d env w name version) = Panics IndexOutOfRange
           \<longleftrightarrow> CHR ''/'' \<notin> set path"
proof -
  obtain entry w1 where g: "getRepoInfo_part_000 d env w repoName (ns d) = (Inr entry, w1)"
    using getRepoInfo_part_000_ok [OF assms(5)] by blast
  let ?w2 = "call (GetChartCall (ToLower env chart @ ''.'' @ repoName) version (ns d) (cfg d)) w1"
  have "files ?w2 = files w" "dirs ?w2 = dirs w"
    using getRepoInfo_part_000_frame [OF g] by (simp_all add: call_def)
  then have "os_Stat env ?w2 ChartsDir = os_Stat env w ChartsDir" by (rule os_Stat_cong)
  with assms(3) obtain w3 where e: "ensureDir env ?w2 ChartsDir = (None, w3)"
    using ensureDir_ok [of env ?w2 ChartsDir] by auto
  note eq = downloadChart_part_000_after_lookup [OF assms(1,2,4) g assms(6) e]
  show ?thesis
  proof (cases "CHR ''/'' \<in> set path")
    case False
    then have "length (strings_Split path (CHR ''/'')) \<le> 1"
      using strings_Split_short [of path "CHR ''/''"] by blast
    with eq False show ?thesis by (simp add: Let_def)
  next
    case True
    then have "\<not> length (strings_Split path (CHR ''/'')) \<le> 1"
      using strings_Split_short [of path "CHR ''/''"] by blast
    with eq True show ?thesis
      by (simp add: Let_def finish_panic downloadFile_part_000_panic)
  qed
qed

lemma downloadChart_mkdir_fails:
  assumes "getRepoAndChart name = (repoName, chart)" and "\<not> (repoName = [] \<and> chart = [])"
    and "os_Stat env w ChartsDir = StatNotExist" and "MkdirAllErr env ChartsDir = Some err"
  shows "downloadChart d env w name version = (Returns ([], Some err), w)"
proof -
  from assms(2) have ne: "(repoName = [] \<and> chart = []) = False" by simp
  have e: "ensureDir env w ChartsDir = (Some err, w)"
    using assms(3,4) by (simp add: ensureDir_def os_MkdirAll_def)
  show ?thesis
    unfolding downloadChart_def Let_def assms(1) prod.case ne if_False e option.case ..
qed

lemma downloadChart_part_000_mkdir_fails:
  assumes "getRepoAndChart name = (repoName, chart)" and "\<not> (repoName = [] \<and> chart = [])"
    and "version = [] \<or> os_Stat env w (getChartPath name version) = StatNotExist"
    and "repoCache w repoName = None \<longrightarrow> (\<exists>entry. GetChartRepo env repoName (ns d) (cfg d) = Inr entry)"
    and "GetChartPath env (ToLower env chart @ ''.'' @ repoName) version (ns d) (cfg d) = Inr path"
    and "os_Stat env w ChartsDir = StatNotExist" and "MkdirAllErr env ChartsDir = Some err"
  shows "fst (downloadChart_part_000 d env w name version) = Returns ([], Some err)"
proof -
  from assms(2) have ne: "(repoName = [] \<and> chart = []) = False" by simp
  from assms(3) have nc: "(version \<noteq> [] \<and> os_Stat env w (getChartPath name version) \<noteq> StatNotExist) = False"
    by auto
  obtain entry w1 where g: "getRepoInfo_part_000 d env w repoName (ns d) = (Inr entry, w1)"
    using getRepoInfo_part_000_ok [OF assms(4)] by blast
  let ?w2 = "call (GetChartCall (ToLower env chart @ ''.'' @ repoName) version (ns d) (cfg d)) w1"
  have "files ?w2 = files w" "dirs ?w2 = dirs w"
    using getRepoInfo_part_000_frame [OF g] by (simp_all add: call_def)
  then have "os_Stat env ?w2 ChartsDir = os_Stat env w ChartsDir" by (rule os_Stat_cong)
  with assms(6,7) have e: "ensureDir env ?w2 ChartsDir = (Some err, ?w2)"
    by (simp add: ensureDir_def os_MkdirAll_def)
  have "downloadChart_part_000 d env w name version = (Returns ([], Some err), ?w2)"
    unfolding downloadChart_part_000_def Let_def assms(1) prod.case ne nc if_False g assms(5) e
      option.case sum.case ..
  then show ?thesis by simp
qed

text \<open>
  C9 (amended). When the name parses and the metadata store resolves the chart to a
  path, the read of the second segment is unchecked. In download.go the charts
  directory is made before the lookup: if that fails the error is returned and nothing
  is looked up, and otherwise the call panics with an index out of range exactly when
  the resolved path contains no \<open>/\<close>. In the earlier variant the directory is made
  after the lookup: the call panics exactly when the path contains no \<open>/\<close> if the
  directory can be made, and returns the error of \<open>os.MkdirAll\<close>, without a panic,
  if it cannot.
\<close>

theorem downloadChart_split_index:
  assumes "getRepoAndChart name = (repoName, chart)" and "\<not> (repoName = [] \<and> chart = [])"
  shows "(\<forall>cv path rest.
            (repoCache w repoName = None \<longrightarrow>
               (\<exists>entry. GetChartRepo env repoName (ns d) (incfg d) = Inr entry)) \<and>
            GetChart env (ToLower env chart @ ''.'' @ repoName) version (ns d) (incfg d) = Inr cv \<and>
            URLs cv = path # rest \<longrightarrow>
            ((os_Stat env w ChartsDir = StatNotExist \<longrightarrow> MkdirAllErr env ChartsDir = None) \<longrightarrow>
               (fst (downloadChart d env w name version) = Panics IndexOutOfRange
                  \<longleftrightarrow> CHR ''/'' \<notin> set path)) \<and>
            (\<forall>err. os_Stat env w ChartsDir = StatNotExist \<and> MkdirAllErr env ChartsDir = Some err \<longrightarrow>
               downloadChart d env w name version = (Returns ([], Some err), w))) \<and>
         (\<forall>path.
            (version = [] \<or> os_Stat env w (getChartPath name version) = StatNotExist) \<and>
            (repoCache w repoName = None \<longrightarrow>
               (\<exists>entry. GetChartRepo env repoName (ns d) (cfg d) = Inr entry)) \<and>
            GetChartPath env (ToLower env chart @ ''.'' @ repoName) version (ns d) (cfg d) = Inr path \<longrightarrow>
            ((os_Stat env w ChartsDir = StatNotExist \<longrightarrow> MkdirAllErr env ChartsDir = None) \<longrightarrow>
               (fst (downloadChart_part_000 d env w name version) = Panics IndexOutOfRange
                  \<longleftrightarrow> CHR ''/'' \<notin> set path)) \<and>
            (\<forall>err. os_Stat env w ChartsDir = StatNotExist \<and> MkdirAllErr env ChartsDir = Some err \<longrightarrow>
               fst (downloadChart_part_000 d env w name version) = Returns ([], Some err)))"
proof (intro conjI allI impI)
  fix cv path rest
  assume h: "(repoCache w repoName = None \<longrightarrow>
             (\<exists>entry. GetChartRepo env repoName (ns d) (incfg d) = Inr entry)) \<and>
          GetChart env (ToLower env chart @ ''.'' @ repoName) version (ns d) (incfg d) = Inr cv \<and>
          URLs cv = path # rest"
    and dir: "os_Stat env w ChartsDir = StatNotExist \<longrightarrow> MkdirAllErr env ChartsDir = None"
  show "fst (downloadChart d env w name version) = Panics IndexOutOfRange
               \<longleftrightarrow> CHR ''/'' \<notin> set path"
    using h downloadChart_index_panic [OF assms dir, of d version cv path rest] by simp
next
  fix cv path rest err
  assume "os_Stat env w ChartsDir = StatNotExist \<and> MkdirAllErr env ChartsDir = Some err"
  then show "downloadChart d env w name version = (Returns ([], Some err), w)"
    using downloadChart_mkdir_fails [OF assms, of env w err d version] by simp
next
  fix path
  assume h: "(version = [] \<or> os_Stat env w (getChartPath name version) = StatNotExist) \<and>
          (repoCache w repoName = None \<longrightarrow>
             (\<exists>entry. GetChartRepo env repoName (ns d) (cfg d) = Inr entry)) \<and>
          GetChartPath env (ToLower env chart @ ''.'' @ repoName) version (ns d) (cfg d) = Inr path"
    and dir: "os_Stat env w ChartsDir = StatNotExist \<longrightarrow> MkdirAllErr env ChartsDir = None"
  show "fst (downloadChart_part_000 d env w name version) = Panics IndexOutOfRange
               \<longleftrightarrow> CHR ''/'' \<notin> set path"
    using h downloadChart_part_000_index_panic [OF assms dir, of version d path] by simp
next
  fix path err
  assume h: "(version = [] \<or> os_Stat env w (getChartPath name version) = StatNotExist) \<and>
          (repoCache w repoName = None \<longrightarrow>
             (\<exists>entry. GetChartRepo env repoName (ns d) (cfg d) = Inr entry)) \<and>
          GetChartPath env (ToLower env chart @ ''.'' @ repoName) version (ns d) (cfg d) = Inr path"
    and m: "os_Stat env w ChartsDir = StatNotExist \<and> MkdirAllErr env ChartsDir = Some err"
  show "fst (downloadChart_part_000 d env w name version) = Returns ([], Some err)"
    using h m downloadChart_part_000_mkdir_fails [OF assms, of version env w d path err] by simp
qed

theorem downloadChart_split_index_witness:
  "getRepoAndChart ''stable/nginx'' = (''stable'', ''nginx'') \<and>
   MkdirAllErr env_flatpath ChartsDir = None \<and>
   GetChart env_flatpath (ToLower env_flatpath ''nginx'' @ ''.'' @ ''stable'') ''1.2.3'' (ns d0) (incfg d0)
     = Inr \<lparr>URLs = [''nginx-1.2.3.tgz''], Digest = ''abc''\<rparr> \<and>
   GetChartPath env_flatpath (ToLower env_flatpath ''nginx'' @ ''.'' @ ''stable'') ''1.2.3'' (ns d0) (cfg d0)
     = Inr ''nginx-1.2.3.tgz'' \<and>
   fst (downloadChart d0 env_flatpath world0 ''stable/nginx'' ''1.2.3'') = Panics IndexOutOfRange \<and>
   fst (downloadChart_part_000 d0 env_flatpath world0 ''stable/nginx'' ''1.2.3'') = Panics IndexOutOfRange"
proof -
  have 1: "getRepoAndChart ''stable/nginx'' = (''stable'', ''nginx'')"
    by (simp add: getRepoAndChart_def)
  have 2: "\<not> (''stable'' = [] \<and> ''nginx'' = [])" by simp
  have 4: "os_Stat env_flatpath world0 (getChartPath ''stable/nginx'' ''1.2.3'') = StatNotExist"
    by (simp add: os_Stat_def env_flatpath_def env0_def world0_def)
  show ?thesis
    using downloadChart_split_index [OF 1 2, of world0 env_flatpath d0 "''1.2.3''"] 1 4
    by (simp add: env_flatpath_def env0_def)
qed

text \<open>The claim as written fails for the earlier variant: the resolved path has no
  \<open>/\<close>, the directory cannot be made, and the call returns that error after the two
  lookups instead of panicking.\<close>

theorem downloadChart_part_000_mkdir_counterexample:
  "GetChartPath env_flatpath_nomkdir ''nginx.stable'' ''1.2.3'' ''system'' ''cluster''
     = Inr ''nginx-1.2.3.tgz'' \<and>
   CHR ''/'' \<notin> set ''nginx-1.2.3.tgz'' \<and>
   fst (downloadChart_part_000 d0 env_flatpath_nomkdir world0 ''stable/nginx'' ''1.2.3'')
     = Returns ([], Some (OtherError ''mkdir: permission denied'')) \<and>
   trace (snd (downloadChart_part_000 d0 env_flatpath_nomkdir world0 ''stable/nginx'' ''1.2.3''))
     = [GetChartRepoCall ''stable'' ''system'' ''cluster'',
        GetChartCall ''nginx.stable'' ''1.2.3'' ''system'' ''cluster'']"
  by (simp add: downloadChart_part_000_def getRepoAndChart_def getChartPath_def strings_ReplaceAll_def
        getRepoInfo_part_000_def ensureDir_def os_Stat_def os_MkdirAll_def
        asciiToLower_def toLowerChar_def ChartsDir_def
        env_flatpath_nomkdir_def env_flatpath_def env0_def world0_def d0_def call_def Let_def)

subsection \<open>What each call changes\<close>

lemma getRepoInfo_trace:
  "trace (snd (getRepoInfo d env w name nsp)) =
     trace w @ (if repoCache w name = None then [GetChartRepoCall name nsp (incfg d)] else [])"
  by (auto simp: getRepoInfo_def call_def Let_def split: option.splits sum.splits)

lemma os_Stat_frame:
  "files w' = files w \<Longrightarrow> dirs w' = dirs w \<or> dirs w' = insert dir (dirs w) \<Longrightarrow> p \<noteq> dir \<Longrightarrow>
     os_Stat env w' p = os_Stat env w p"
  by (auto simp: os_Stat_def)

lemma os_Stat_NotExist_files: "os_Stat env w p = StatNotExist \<Longrightarrow> files w p = None"
  by (auto simp: os_Stat_def split: if_splits)

lemma downloadFile_frame:
  "(\<forall>q. q \<noteq> fp \<longrightarrow> files (snd (downloadFile env w url username password fp)) q = files w q) \<and>
   dirs (snd (downloadFile env w url username password fp)) = dirs w \<and>
   (trace (snd (downloadFile env w url username password fp)) = trace w \<or>
    trace (snd (downloadFile env w url username password fp))
      = trace w @ [HTTPDoCall (requestFor url username password)])"
proof (cases "NewRequestErr env url")
  case (Some e)
  then show ?thesis by (simp add: downloadFile_nil_request)
next
  case None
  show ?thesis
    unfolding downloadFile_request [OF None] Let_def
    by (simp add: ioutil_WriteFile_def call_def split: sum.splits option.splits prod.splits)
qed

lemma downloadFile_success:
  "fst (downloadFile env w url username password fp) = Returns None \<Longrightarrow>
     trace (snd (downloadFile env w url username password fp))
       = trace w @ [HTTPDoCall (requestFor url username password)]"
proof (cases "NewRequestErr env url")
  case (Some e)
  assume "fst (downloadFile env w url username password fp) = Returns None"
  with Some show ?thesis by (simp add: downloadFile_nil_request)
next
  case None
  assume "fst (downloadFile env w url username password fp) = Returns None"
  then show ?thesis
    unfolding downloadFile_request [OF None] Let_def
    by (simp add: ioutil_WriteFile_def call_def split: sum.splits option.splits prod.splits if_splits)
qed

lemma downloadFile_success_eq:
  "downloadFile env w url username password fp = (Returns None, w') \<Longrightarrow>
     trace w' = trace w @ [HTTPDoCall (requestFor url username password)]"
  using downloadFile_success [of env w url username password fp] by simp

lemma fetchAuthFromSecret_trace_eq:
  "fetchAuthFromSecret d env w name namespace = (r, w') \<Longrightarrow>
     \<exists>evs. trace w' = trace w @ evs \<and> files w' = files w \<and> dirs w' = dirs w"
  using fetchAuthFromSecret_world [of d env w name namespace] by auto

lemma os_Remove_frame:
  "trace (os_Remove env w p) = trace w \<and> (\<forall>q. q \<noteq> p \<longrightarrow> files (os_Remove env w p) q = files w q)"
  by (simp add: os_Remove_def)

lemma downloadChartFromHTTP_http:
  assumes "Source (Spec hr) = Some src" and "HTTP src = Some h" and "http_URL h \<noteq> []"
    and "ensureDir env w ChartsDir = (r1, w1)"
    and "(if http_SecretRef h \<noteq> []
          then fetchAuthFromSecret d env
                 (if os_Stat env w1 (httpFilePath hr (http_URL h)) \<noteq> StatNotExist
                  then os_Remove env w1 (httpFilePath hr (http_URL h)) else w1)
                 (http_SecretRef h) (Namespace hr)
          else (([], [], None),
                 (if os_Stat env w1 (httpFilePath hr (http_URL h)) \<noteq> StatNotExist
                  then os_Remove env w1 (httpFilePath hr (http_URL h)) else w1)))
         = ((u, pw, err), w3)"
    and "downloadFile env w3 (http_URL h) u pw (httpFilePath hr (http_URL h)) = (r4, w4)"
  shows "downloadChartFromHTTP d env w hr =
     (case r1 of Some err1 \<Rightarrow> (Returns ([], Some err1), w1)
      | None \<Rightarrow>
        if err \<noteq> None then (Returns ([], err), w3)
        else if strings_HasPrefix (http_URL h) ''http://'' \<or> strings_HasPrefix (http_URL h) ''https://''
        then (case r4 of Panics pn \<Rightarrow> (Panics pn, w4)
              | Returns (Some err4) \<Rightarrow> (Returns ([], Some err4), w4)
              | Returns None \<Rightarrow> (Returns (httpFilePath hr (http_URL h), None), w4))
        else (Returns (httpFilePath hr (http_URL h), Some (ErrorsNew
                ''helmrequest spec source http url does not start with HTTP or HTTPS'')), w3))"
  using assms(3)
  unfolding downloadChartFromHTTP_def Let_def assms(1,2) option.case assms(4) prod.case
    assms(5) [unfolded httpFilePath_def] assms(6) [unfolded httpFilePath_def] httpFilePath_def
  by (simp split: option.splits)

lemma downloadChartFromHTTP_parts:
  assumes "Source (Spec hr) = Some src" and "HTTP src = Some h" and "http_URL h \<noteq> []"
  obtains w1 u pw w3 r4 w4 evs where
    "downloadFile env w3 (http_URL h) u pw (httpFilePath hr (http_URL h)) = (r4, w4)"
    "trace w3 = trace w @ evs"
    "\<forall>q. q \<noteq> httpFilePath hr (http_URL h) \<longrightarrow>
       files w1 q = files w q \<and> files w3 q = files w q \<and> files w4 q = files w q"
    "snd (downloadChartFromHTTP d env w hr) = w1 \<or> snd (downloadChartFromHTTP d env w hr) = w3
       \<or> snd (downloadChartFromHTTP d env w hr) = w4"
    "\<forall>p. fst (downloadChartFromHTTP d env w hr) = Returns (p, None) \<and> p \<noteq> [] \<longrightarrow>
       r4 = Returns None \<and> snd (downloadChartFromHTTP d env w hr) = w4"
proof -
  let ?fp = "httpFilePath hr (http_URL h)"
  obtain r1 w1 where e: "ensureDir env w ChartsDir = (r1, w1)" by (cases "ensureDir env w ChartsDir")
  then have t1: "trace w1 = trace w" "files w1 = files w" using ensureDir_frame by blast+
  define w2 where "w2 = (if os_Stat env w1 ?fp \<noteq> StatNotExist then os_Remove env w1 ?fp else w1)"
  have t2: "trace w2 = trace w" "\<forall>q. q \<noteq> ?fp \<longrightarrow> files w2 q = files w q"
    using t1 os_Remove_frame by (simp_all add: w2_def)
  obtain u pw err w3 where f: "(if http_SecretRef h \<noteq> []
                                  then fetchAuthFromSecret d env w2 (http_SecretRef h) (Namespace hr)
                                  else (([], [], None), w2)) = ((u, pw, err), w3)"
    by (metis prod_cases3 surj_pair)
  have "\<exists>evs. trace w3 = trace w @ evs \<and> files w3 = files w2"
    using f t2 fetchAuthFromSecret_trace_eq [of d env w2 "http_SecretRef h" "Namespace hr" "(u, pw, err)" w3]
    by (cases "http_SecretRef h \<noteq> []") auto
  then obtain evs where t3: "trace w3 = trace w @ evs" "files w3 = files w2" by blast
  obtain r4 w4 where g: "downloadFile env w3 (http_URL h) u pw ?fp = (r4, w4)"
    by (cases "downloadFile env w3 (http_URL h) u pw ?fp")
  then have t4: "\<forall>q. q \<noteq> ?fp \<longrightarrow> files w4 q = files w3 q"
    using downloadFile_frame [of ?fp env w3 "http_URL h" u pw] by simp
  note eq = downloadChartFromHTTP_http [OF assms e f [unfolded w2_def] g]
  have fr: "\<forall>q. q \<noteq> ?fp \<longrightarrow> files w1 q = files w q \<and> files w3 q = files w q \<and> files w4 q = files w q"
    using t1 t2 t3 t4 by simp
  have sn: "snd (downloadChartFromHTTP d env w hr) = w1 \<or> snd (downloadChartFromHTTP d env w hr) = w3
       \<or> snd (downloadChartFromHTTP d env w hr) = w4"
    unfolding eq by (simp split: option.splits outcome.splits)
  have su: "\<forall>p. fst (downloadChartFromHTTP d env w hr) = Returns (p, None) \<and> p \<noteq> [] \<longrightarrow>
       r4 = Returns None \<and> snd (downloadChartFromHTTP d env w hr) = w4"
    unfolding eq by (auto split: option.splits if_splits outcome.splits)
  show ?thesis using that [OF g t3(1) fr sn su] .
qed

lemma downloadChartFromHTTP_success:
  assumes "fst (downloadChartFromHTTP d env w hr) = Returns (p, None)" and "p \<noteq> []"
  shows "\<exists>evs r. trace (snd (downloadChartFromHTTP d env w hr)) = trace w @ evs @ [HTTPDoCall r]"
proof -
  from assms obtain src h where s: "Source (Spec hr) = Some src" "HTTP src = Some h" "http_URL h \<noteq> []"
    by (auto simp: downloadChartFromHTTP_def split: option.splits if_splits)
  show ?thesis
  proof (rule downloadChartFromHTTP_parts [OF s, of env w d])
    fix w1 u pw w3 r4 w4 evs
    assume g: "downloadFile env w3 (http_URL h) u pw (httpFilePath hr (http_URL h)) = (r4, w4)"
      and t3: "trace w3 = trace w @ evs"
      and su: "\<forall>p. fst (downloadChartFromHTTP d env w hr) = Returns (p, None) \<and> p \<noteq> [] \<longrightarrow>
                 r4 = Returns None \<and> snd (downloadChartFromHTTP d env w hr) = w4"
    from su assms have "r4 = Returns None" "snd (downloadChartFromHTTP d env w hr) = w4" by blast+
    with g t3 show ?thesis
      using downloadFile_success_eq [of env w3 "http_URL h" u pw _ w4] by auto
  qed
qed

lemma downloadChartFromHTTP_files:
  assumes pc: "files w p = Some c"
    and ne: "\<forall>src h. Source (Spec hr) = Some src \<and> HTTP src = Some h \<longrightarrow> p \<noteq> httpFilePath hr (http_URL h)"
  shows "files (snd (downloadChartFromHTTP d env w hr)) p = Some c"
proof (cases "\<exists>src h. Source (Spec hr) = Some src \<and> HTTP src = Some h \<and> http_URL h \<noteq> []")
  case False
  then have "snd (downloadChartFromHTTP d env w hr) = w"
    by (auto simp: downloadChartFromHTTP_def split: option.splits)
  with pc show ?thesis by simp
next
  case True
  then obtain src h where s: "Source (Spec hr) = Some src" "HTTP src = Some h" "http_URL h \<noteq> []"
    by blast
  with ne have p: "p \<noteq> httpFilePath hr (http_URL h)" by blast
  show ?thesis
  proof (rule downloadChartFromHTTP_parts [OF s, of env w d])
    fix w1 w3 w4
    assume fr: "\<forall>q. q \<noteq> httpFilePath hr (http_URL h) \<longrightarrow>
                  files w1 q = files w q \<and> files w3 q = files w q \<and> files w4 q = files w q"
      and sn: "snd (downloadChartFromHTTP d env w hr) = w1 \<or> snd (downloadChartFromHTTP d env w hr) = w3
                 \<or> snd (downloadChartFromHTTP d env w hr) = w4"
    from fr p pc have "files w1 p = Some c" "files w3 p = Some c" "files w4 p = Some c" by simp_all
    with sn show ?thesis by auto
  qed
qed

lemma pullOCIChart_files: "files (snd (pullOCIChart d env w hr)) = files w"
proof -
  have "files (snd (fetchAuthFromSecret d env w n nsp)) = files w" for n nsp
    using fetchAuthFromSecret_world [of d env w n nsp] by auto
  then have "\<And>n nsp r w'. fetchAuthFromSecret d env w n nsp = (r, w') \<Longrightarrow> files w' = files w"
    by (metis snd_conv)
  then show ?thesis
    by (auto simp: pullOCIChart_def call_def Let_def
          split: sum.splits option.splits prod.splits if_splits)
qed

lemma finish_snd:
  "snd (case r of
          (Panics p, w4) \<Rightarrow> (Panics p, w4)
        | (Returns (Some err), w4) \<Rightarrow> (Returns ([], Some err), w4)
        | (Returns None, w4) \<Rightarrow> (Returns (fp, None), w4)) = snd r"
  by (auto split: prod.splits outcome.splits option.splits)

lemma downloadChart_files:
  assumes pc: "files w p = Some c"
  shows "files (snd (downloadChart d env w name version)) p = Some c"
proof -
  obtain repoName chart where rc: "getRepoAndChart name = (repoName, chart)"
    by (cases "getRepoAndChart name")
  obtain r1 w1 where e: "ensureDir env w ChartsDir = (r1, w1)"
    by (cases "ensureDir env w ChartsDir")
  then have f1: "files w1 = files w" using ensureDir_frame by blast
  obtain r2 w2 where g: "getRepoInfo d env w1 repoName (ns d) = (r2, w2)"
    by (cases "getRepoInfo d env w1 repoName (ns d)")
  then have f2: "files w2 = files w" using getRepoInfo_frame f1 by metis
  let ?w3 = "call (GetChartCall (ToLower env chart @ ''.'' @ repoName) version (ns d) (incfg d)) w2"
  have f3: "files ?w3 = files w" using f2 by (simp add: call_def)
  have key: "files (snd (downloadFileFromEntry env ?w3 entry path fp)) p = Some c"
    if "os_Stat env ?w3 fp = StatNotExist" for entry path fp
  proof -
    from that have "files ?w3 fp = None" by (rule os_Stat_NotExist_files)
    with pc f3 have "p \<noteq> fp" by auto
    then show ?thesis
      using downloadFile_frame pc f3 by (simp add: downloadFileFromEntry_def Let_def)
  qed
  show ?thesis
    unfolding downloadChart_def Let_def rc prod.case e g
    using pc f1 f2 f3 key
    by (simp add: finish_snd split: option.splits sum.splits list.splits)
qed

subsection \<open>The warm cache\<close>

lemma downloadChart_cached_repo:
  assumes "getRepoAndChart name = (repoName, chart)" and "\<not> (repoName = [] \<and> chart = [])"
    and "os_Stat env w ChartsDir = StatNotExist \<longrightarrow> MkdirAllErr env ChartsDir = None"
    and "repoCache w repoName = None \<longrightarrow> (\<exists>entry. GetChartRepo env repoName (ns d) (incfg d) = Inr entry)"
    and "GetChart env (ToLower env chart @ ''.'' @ repoName) version (ns d) (incfg d) = Inr cv"
    and "URLs cv = path # rest" and "strings_Split path (CHR ''/'') = seg # fileName # segs"
    and "os_Stat env w (ChartsDir @ ''/'' @ repoName @ ''-'' @ Digest cv @ ''-'' @ fileName) \<noteq> StatNotExist"
  shows "fst (downloadChart d env w name version)
           = Returns (ChartsDir @ ''/'' @ repoName @ ''-'' @ Digest cv @ ''-'' @ fileName, None) \<and>
         files (snd (downloadChart d env w name version)) = files w \<and>
         trace (snd (downloadChart d env w name version))
           = trace w @ (if repoCache w repoName = None
                        then [GetChartRepoCall repoName (ns d) (incfg d)] else [])
               @ [GetChartCall (ToLower env chart @ ''.'' @ repoName) version (ns d) (incfg d)]"
proof -
  let ?fp = "ChartsDir @ ''/'' @ repoName @ ''-'' @ Digest cv @ ''-'' @ fileName"
  obtain w1 where e: "ensureDir env w ChartsDir = (None, w1)"
    using ensureDir_ok [OF assms(3)] by blast
  then have f1: "files w1 = files w" "trace w1 = trace w" "repoCache w1 = repoCache w"
    "dirs w1 = dirs w \<or> dirs w1 = insert ChartsDir (dirs w)"
    using ensureDir_frame by blast+
  with assms(4) obtain entry w2 where g: "getRepoInfo d env w1 repoName (ns d) = (Inr entry, w2)"
    using getRepoInfo_ok [of w1 repoName env "ns d" d] by auto
  then have f2: "files w2 = files w1" "dirs w2 = dirs w1" using getRepoInfo_frame by blast+
  have t2: "trace w2 = trace w @ (if repoCache w repoName = None
                        then [GetChartRepoCall repoName (ns d) (incfg d)] else [])"
    using getRepoInfo_trace [of d env w1 repoName "ns d"] g f1 by simp
  let ?w3 = "call (GetChartCall (ToLower env chart @ ''.'' @ repoName) version (ns d) (incfg d)) w2"
  have f3: "files ?w3 = files w" "dirs ?w3 = dirs w \<or> dirs ?w3 = insert ChartsDir (dirs w)"
    using f1 f2 by (simp_all add: call_def)
  have "?fp \<noteq> ChartsDir" by simp
  with f3 have "os_Stat env ?w3 ?fp = os_Stat env w ?fp" by (rule os_Stat_frame)
  with assms(8) have st: "os_Stat env ?w3 ?fp \<noteq> StatNotExist" by simp
  have "downloadChart d env w name version = (Returns (?fp, None), ?w3)"
    unfolding downloadChart_after_lookup [OF assms(1,2) e g assms(5,6)] Let_def assms(7)
    using st by simp
  then show ?thesis using f3 t2 by (simp add: call_def)
qed

text \<open>
  C1 (amended). On the repository path, when the name parses, the charts directory can
  be made, the metadata store answers, and the file named after the repository, the
  digest and the second segment of the resolved path already exists, \<open>downloadChart\<close>
  returns that path, changes no file, and makes no HTTP fetch and no secret read: the
  only calls are the metadata-store lookups that the path is computed from (the
  repository lookup unless the entry is cached, then the chart lookup). The HTTP-source
  path has no such short cut: whenever \<open>downloadChartFromHTTP\<close> succeeds with a path,
  its last call is an HTTP fetch, whether or not the destination file existed.
\<close>

theorem downloadChart_cached:
  "(getRepoAndChart name = (repoName, chart) \<and> \<not> (repoName = [] \<and> chart = []) \<and>
    (os_Stat env w ChartsDir = StatNotExist \<longrightarrow> MkdirAllErr env ChartsDir = None) \<and>
    (repoCache w repoName = None \<longrightarrow> (\<exists>entry. GetChartRepo env repoName (ns d) (incfg d) = Inr entry)) \<and>
    GetChart env (ToLower env chart @ ''.'' @ repoName) version (ns d) (incfg d) = Inr cv \<and>
    URLs cv = path # rest \<and> strings_Split path (CHR ''/'') = seg # fileName # segs \<and>
    os_Stat env w (ChartsDir @ ''/'' @ repoName @ ''-'' @ Digest cv @ ''-'' @ fileName) \<noteq> StatNotExist
    \<longrightarrow>
      fst (downloadChart d env w name version)
        = Returns (ChartsDir @ ''/'' @ repoName @ ''-'' @ Digest cv @ ''-'' @ fileName, None) \<and>
      files (snd (downloadChart d env w name version)) = files w \<and>
      trace (snd (downloadChart d env w name version))
        = trace w @ (if repoCache w repoName = None
                     then [GetChartRepoCall repoName (ns d) (incfg d)] else [])
            @ [GetChartCall (ToLower env chart @ ''.'' @ repoName) version (ns d) (incfg d)]) \<and>
   (\<forall>p. fst (downloadChartFromHTTP d env w hr) = Returns (p, None) \<and> p \<noteq> [] \<longrightarrow>
      (\<exists>evs r. trace (snd (downloadChartFromHTTP d env w hr)) = trace w @ evs @ [HTTPDoCall r]))"
proof (intro conjI impI allI)
  assume h: "getRepoAndChart name = (repoName, chart) \<and> \<not> (repoName = [] \<and> chart = []) \<and>
    (os_Stat env w ChartsDir = StatNotExist \<longrightarrow> MkdirAllErr env ChartsDir = None) \<and>
    (repoCache w repoName = None \<longrightarrow> (\<exists>entry. GetChartRepo env repoName (ns d) (incfg d) = Inr entry)) \<and>
    GetChart env (ToLower env chart @ ''.'' @ repoName) version (ns d) (incfg d) = Inr cv \<and>
    URLs cv = path # rest \<and> strings_Split path (CHR ''/'') = seg # fileName # segs \<and>
    os_Stat env w (ChartsDir @ ''/'' @ repoName @ ''-'' @ Digest cv @ ''-'' @ fileName) \<noteq> StatNotExist"
  note r = downloadChart_cached_repo [of name repoName chart env w d version cv path rest seg fileName segs]
  from h r show "fst (downloadChart d env w name version)
        = Returns (ChartsDir @ ''/'' @ repoName @ ''-'' @ Digest cv @ ''-'' @ fileName, None)"
    by simp
  from h r show "files (snd (downloadChart d env w name version)) = files w"
    by simp
  from h r show "trace (snd (downloadChart d env w name version))
        = trace w @ (if repoCache w repoName = None
                     then [GetChartRepoCall repoName (ns d) (incfg d)] else [])
            @ [GetChartCall (ToLower env chart @ ''.'' @ repoName) version (ns d) (incfg d)]"
    by simp
next
  fix p
  assume "fst (downloadChartFromHTTP d env w hr) = Returns (p, None) \<and> p \<noteq> []"
  then show "\<exists>evs r. trace (snd (downloadChartFromHTTP d env w hr)) = trace w @ evs @ [HTTPDoCall r]"
    using downloadChartFromHTTP_success [of d env w hr p] by simp
qed

theorem downloadChart_cached_witness:
  "getRepoAndChart ''stable/nginx'' = (''stable'', ''nginx'') \<and>
   os_Stat env0 world_cached ChartsDir \<noteq> StatNotExist \<and>
   repoCache world_cached ''stable'' = None \<and>
   GetChartRepo env0 ''stable'' (ns d0) (incfg d0)
     = Inr \<lparr>URL = ''https://charts.example.com'', Username = [], Password = []\<rparr> \<and>
   GetChart env0 (ToLower env0 ''nginx'' @ ''.'' @ ''stable'') ''1.2.3'' (ns d0) (incfg d0)
     = Inr \<lparr>URLs = [''charts/nginx-1.2.3.tgz''], Digest = ''abc''\<rparr> \<and>
   strings_Split ''charts/nginx-1.2.3.tgz'' (CHR ''/'') = [''charts'', ''nginx-1.2.3.tgz''] \<and>
   os_Stat env0 world_cached (ChartsDir @ ''/'' @ ''stable'' @ ''-'' @ ''abc'' @ ''-'' @ ''nginx-1.2.3.tgz'')
     = StatOK \<and>
   fst (downloadChart d0 env0 world_cached ''stable/nginx'' ''1.2.3'')
     = Returns (''/tmp/helm-charts/stable-abc-nginx-1.2.3.tgz'', None) \<and>
   files (snd (downloadChart d0 env0 world_cached ''stable/nginx'' ''1.2.3'')) = files world_cached \<and>
   trace (snd (downloadChart d0 env0 world_cached ''stable/nginx'' ''1.2.3''))
     = [GetChartRepoCall ''stable'' ''system'' ''in-cluster'',
        GetChartCall ''nginx.stable'' ''1.2.3'' ''system'' ''in-cluster'']"
proof -
  have 1: "getRepoAndChart ''stable/nginx'' = (''stable'', ''nginx'')"
    by (simp add: getRepoAndChart_def)
  have 2: "os_Stat env0 world_cached ChartsDir \<noteq> StatNotExist"
    by (simp add: os_Stat_def env0_def world_cached_def ChartsDir_def)
  have 3: "ToLower env0 ''nginx'' = ''nginx''"
    by (simp add: env0_def asciiToLower_def toLowerChar_def)
  have 4: "strings_Split ''charts/nginx-1.2.3.tgz'' (CHR ''/'') = [''charts'', ''nginx-1.2.3.tgz'']"
    by simp
  have 5: "os_Stat env0 world_cached (ChartsDir @ ''/'' @ ''stable'' @ ''-'' @ ''abc'' @ ''-'' @ ''nginx-1.2.3.tgz'')
     = StatOK"
    by (simp add: os_Stat_def env0_def world_cached_def ChartsDir_def)
  have 6: "repoCache world_cached ''stable'' = None" "trace world_cached = []"
    by (simp_all add: world_cached_def)
  have 7: "GetChartRepo env0 ''stable'' (ns d0) (incfg d0)
     = Inr \<lparr>URL = ''https://charts.example.com'', Username = [], Password = []\<rparr>"
    "GetChart env0 (''nginx'' @ ''.'' @ ''stable'') ''1.2.3'' (ns d0) (incfg d0)
     = Inr \<lparr>URLs = [''charts/nginx-1.2.3.tgz''], Digest = ''abc''\<rparr>"
    "ns d0 = ''system''" "incfg d0 = ''in-cluster''"
    by (simp_all add: env0_def d0_def)
  show ?thesis
    using downloadChart_cached [of "''stable/nginx''" "''stable''" "''nginx''" env0 world_cached d0
        "''1.2.3''" "\<lparr>URLs = [''charts/nginx-1.2.3.tgz''], Digest = ''abc''\<rparr>"
        "''charts/nginx-1.2.3.tgz''" "[]" "''charts''" "''nginx-1.2.3.tgz''" "[]" hr_http]
      1 2 3 4 5 6 7
    by (simp add: ChartsDir_def)
qed

text \<open>The claim as written fails on both paths with the destination file present:
  the HTTP-source call fetches the archive again, and the repository call makes two
  metadata-store lookups.\<close>

theorem warm_cache_counterexample:
  "files world_cached ''/tmp/helm-charts/myapp-app-2.0.tgz'' = Some ''old'' \<and>
   fst (downloadChartFromHTTP d0 env0 world_cached hr_http)
     = Returns (''/tmp/helm-charts/myapp-app-2.0.tgz'', None) \<and>
   trace (snd (downloadChartFromHTTP d0 env0 world_cached hr_http))
     = [HTTPDoCall \<lparr>req_url = ''https://files.example.com/pkg/app-2.0.tgz'', req_auth = None\<rparr>] \<and>
   files world_cached ''/tmp/helm-charts/stable-abc-nginx-1.2.3.tgz'' = Some ''old'' \<and>
   fst (downloadChart d0 env0 world_cached ''stable/nginx'' ''1.2.3'')
     = Returns (''/tmp/helm-charts/stable-abc-nginx-1.2.3.tgz'', None) \<and>
   trace (snd (downloadChart d0 env0 world_cached ''stable/nginx'' ''1.2.3''))
     = [GetChartRepoCall ''stable'' ''system'' ''in-cluster'',
        GetChartCall ''nginx.stable'' ''1.2.3'' ''system'' ''in-cluster'']"
  by (simp add: downloadChartFromHTTP_def downloadChart_def getRepoAndChart_def ensureDir_def
        os_Stat_def os_Remove_def getRepoInfo_def splitChartNameFromURL_def strings_LastIndex_def
        strings_HasPrefix_def asciiToLower_def toLowerChar_def
        downloadFile_def http_NewRequest_def ioutil_WriteFile_def
        ChartsDir_def env0_def world_cached_def hr_http_def d0_def call_def Let_def)

subsection \<open>Files already in the charts directory\<close>

text \<open>
  C8 (amended). \<open>downloadChart\<close>, \<open>fetchAuthFromSecret\<close> and \<open>pullOCIChart\<close> never
  change or delete a file that exists: every file present before the call is present
  with the same content after it, whatever the outcome. \<open>downloadChartFromHTTP\<close> keeps
  every file other than its own destination \<open>httpFilePath\<close>; the destination itself it
  removes and writes again.
\<close>

theorem cached_files_preserved:
  "(\<forall>p c. files w p = Some c \<longrightarrow> files (snd (downloadChart d env w name version)) p = Some c) \<and>
   files (snd (fetchAuthFromSecret d env w sname namespace)) = files w \<and>
   files (snd (pullOCIChart d env w hr)) = files w \<and>
   (\<forall>p c. files w p = Some c \<and>
          (\<forall>src h. Source (Spec hr) = Some src \<and> HTTP src = Some h
                    \<longrightarrow> p \<noteq> httpFilePath hr (http_URL h)) \<longrightarrow>
          files (snd (downloadChartFromHTTP d env w hr)) p = Some c)"
proof -
  have "files (snd (fetchAuthFromSecret d env w sname namespace)) = files w"
    using fetchAuthFromSecret_world [of d env w sname namespace] by auto
  then show ?thesis
    using downloadChart_files [of w _ _ d env name version] pullOCIChart_files [of d env w hr]
      downloadChartFromHTTP_files [of w _ _ hr d env]
    by blast
qed

theorem cached_files_preserved_witness:
  "files world_cached ''/tmp/helm-charts/stable-abc-nginx-1.2.3.tgz'' = Some ''old'' \<and>
   files (snd (downloadChart d0 env0 world_cached ''stable/nginx'' ''1.2.3''))
     ''/tmp/helm-charts/stable-abc-nginx-1.2.3.tgz'' = Some ''old'' \<and>
   httpFilePath hr_http ''https://files.example.com/pkg/app-2.0.tgz'' = ''/tmp/helm-charts/myapp-app-2.0.tgz'' \<and>
   files (snd (downloadChartFromHTTP d0 env0 world_cached hr_http))
     ''/tmp/helm-charts/stable-abc-nginx-1.2.3.tgz'' = Some ''old''"
proof -
  have 1: "files world_cached ''/tmp/helm-charts/stable-abc-nginx-1.2.3.tgz'' = Some ''old''"
    by (simp add: world_cached_def)
  have 2: "httpFilePath hr_http ''https://files.example.com/pkg/app-2.0.tgz''
             = ''/tmp/helm-charts/myapp-app-2.0.tgz''"
    by (simp add: httpFilePath_def hr_http_def ChartsDir_def splitChartNameFromURL_def
          strings_LastIndex_def)
  have 3: "\<forall>src h. Source (Spec hr_http) = Some src \<and> HTTP src = Some h
             \<longrightarrow> ''/tmp/helm-charts/stable-abc-nginx-1.2.3.tgz'' \<noteq> httpFilePath hr_http (http_URL h)"
    using 2 by (auto simp: hr_http_def)
  show ?thesis
    using cached_files_preserved [of world_cached d0 env0 "''stable/nginx''" "''1.2.3''"
        "''regcred''" "''default''" hr_http] 1 2 3
    by blast
qed

text \<open>The claim as written fails on the HTTP-source path: the file that was at the
  destination is replaced by the new body, and when the fetch fails it is gone.\<close>

theorem cached_file_removed_counterexample:
  "files world_cached ''/tmp/helm-charts/myapp-app-2.0.tgz'' = Some ''old'' \<and>
   files (snd (downloadChartFromHTTP d0 env0 world_cached hr_http))
     ''/tmp/helm-charts/myapp-app-2.0.tgz'' = Some ''tgz'' \<and>
   fst (downloadChartFromHTTP d0 (env_status 404 ''404 Not Found'') world_cached hr_http)
     = Returns ([], Some (ErrorsNew
         ''failed to fetch https://files.example.com/pkg/app-2.0.tgz : 404 Not Found'')) \<and>
   files (snd (downloadChartFromHTTP d0 (env_status 404 ''404 Not Found'') world_cached hr_http))
     ''/tmp/helm-charts/myapp-app-2.0.tgz'' = None"
  by (simp add: downloadChartFromHTTP_def ensureDir_def
        os_Stat_def os_Remove_def splitChartNameFromURL_def strings_LastIndex_def
        strings_HasPrefix_def downloadFile_def http_NewRequest_def ioutil_WriteFile_def
        ChartsDir_def env_status_def env0_def world_cached_def hr_http_def d0_def call_def Let_def)

subsection \<open>Names that are not refused\<close>

lemma getRepoInfo_Inl_miss:
  "getRepoInfo d env w name nsp = (Inl err, w') \<Longrightarrow> repoCache w name = None"
  by (auto simp: getRepoInfo_def Let_def split: option.splits sum.splits)

lemma downloadFileFromEntry_trace:
  "\<exists>tail. trace (snd (downloadFileFromEntry env w entry chartPath fp)) = trace w @ tail"
proof -
  have "\<exists>tail. trace (snd (downloadFile env w url (Username entry) (Password entry) fp)) = trace w @ tail"
    for url
  proof -
    from downloadFile_frame [of fp env w url "Username entry" "Password entry"]
    have "trace (snd (downloadFile env w url (Username entry) (Password entry) fp)) = trace w @ [] \<or>
          trace (snd (downloadFile env w url (Username entry) (Password entry) fp))
            = trace w @ [HTTPDoCall (requestFor url (Username entry) (Password entry))]"
      by simp
    then show ?thesis by blast
  qed
  then show ?thesis by (simp add: downloadFileFromEntry_def Let_def)
qed

lemma downloadChart_after_repo:
  assumes "getRepoAndChart name = (repoName, chart)" and "\<not> (repoName = [] \<and> chart = [])"
    and "ensureDir env w ChartsDir = (None, w1)"
    and "getRepoInfo d env w1 repoName (ns d) = (Inr entry, w2)"
  shows "\<exists>tail. trace (snd (downloadChart d env w name version))
           = trace w2 @ GetChartCall (ToLower env chart @ ''.'' @ repoName) version (ns d) (incfg d) # tail"
proof -
  from assms(2) have ne: "(repoName = [] \<and> chart = []) = False" by simp
  let ?w3 = "call (GetChartCall (ToLower env chart @ ''.'' @ repoName) version (ns d) (incfg d)) w2"
  have t3: "trace ?w3 = trace w2 @ [GetChartCall (ToLower env chart @ ''.'' @ repoName) version (ns d) (incfg d)]"
    by (simp add: call_def)
  have k: "\<exists>tail. trace (snd (downloadFileFromEntry env ?w3 entry p fp)) = trace ?w3 @ tail" for p fp
    by (rule downloadFileFromEntry_trace)
  have "\<exists>tail. trace (snd (downloadChart d env w name version)) = trace ?w3 @ tail"
    unfolding downloadChart_def Let_def assms(1) prod.case ne if_False assms(3,4) option.case sum.case
    using k by (simp add: finish_snd split: sum.splits list.splits)
  then show ?thesis unfolding t3 by auto
qed

lemma downloadChart_goes_on:
  assumes "getRepoAndChart name = (repoName, chart)" and "\<not> (repoName = [] \<and> chart = [])"
    and "os_Stat env w ChartsDir = StatNotExist \<longrightarrow> MkdirAllErr env ChartsDir = None"
  shows "\<exists>evs. trace (snd (downloadChart d env w name version))
           = trace w @ (if repoCache w repoName = None
                        then GetChartRepoCall repoName (ns d) (incfg d)
                        else GetChartCall (ToLower env chart @ ''.'' @ repoName) version (ns d) (incfg d))
               # evs"
proof -
  from assms(2) have ne: "(repoName = [] \<and> chart = []) = False" by simp
  obtain w1 where e: "ensureDir env w ChartsDir = (None, w1)"
    using ensureDir_ok [OF assms(3)] by blast
  then have f1: "trace w1 = trace w" "repoCache w1 = repoCache w"
    using ensureDir_frame by blast+
  obtain r2 w2 where g: "getRepoInfo d env w1 repoName (ns d) = (r2, w2)"
    by (cases "getRepoInfo d env w1 repoName (ns d)")
  have t2: "trace w2 = trace w @ (if repoCache w repoName = None
                        then [GetChartRepoCall repoName (ns d) (incfg d)] else [])"
    using getRepoInfo_trace [of d env w1 repoName "ns d"] g f1 by simp
  show ?thesis
  proof (cases r2)
    case (Inl err)
    with g have miss: "repoCache w repoName = None"
      using getRepoInfo_Inl_miss [of d env w1 repoName "ns d" err w2] f1 by simp
    have "downloadChart d env w name version = (Returns ([], Some err), w2)"
      unfolding downloadChart_def Let_def assms(1) prod.case ne if_False e g Inl option.case sum.case ..
    with t2 miss show ?thesis by simp
  next
    case (Inr entry)
    with g have g': "getRepoInfo d env w1 repoName (ns d) = (Inr entry, w2)" by simp
    obtain tail where "trace (snd (downloadChart d env w name version))
           = trace w2 @ GetChartCall (ToLower env chart @ ''.'' @ repoName) version (ns d) (incfg d) # tail"
      using downloadChart_after_repo [OF assms(1,2) e g', of version] by blast
    with t2 show ?thesis by (cases "repoCache w repoName = None") simp_all
  qed
qed

text \<open>
  C2 (amended). \<open>downloadChart\<close> refuses a name exactly when it is not of the form
  \<open>a/b\<close> with no further \<open>/\<close> in \<open>a\<close> or \<open>b\<close> and at least one of \<open>a\<close>, \<open>b\<close>
  non-empty: no \<open>/\<close>, more than one \<open>/\<close>, or the name \<open>/\<close> itself. A refused name
  returns the error \<open>cannot parse chart name\<close> before any lookup and with the world
  untouched. Every other name, also one with an empty segment such as \<open>repo/\<close> or
  \<open>/chart\<close>, parses into its two segments and is not refused: the charts directory
  is made (its error is returned if that fails) and the next thing the call does is a
  lookup in the metadata store, of the repository \<open>a\<close> or, when that is cached, of the
  chart.
\<close>

theorem downloadChart_parse:
  "(getRepoAndChart name = ([], []) \<longleftrightarrow>
      \<not> (\<exists>a b. name = a @ CHR ''/'' # b \<and> CHR ''/'' \<notin> set a \<and> CHR ''/'' \<notin> set b
               \<and> (a \<noteq> [] \<or> b \<noteq> []))) \<and>
   (getRepoAndChart name = ([], []) \<longrightarrow>
      downloadChart d env w name version
        = (Returns ([], Some (ErrorsNew ''cannot parse chart name'')), w)) \<and>
   (\<forall>a b. CHR ''/'' \<notin> set a \<and> CHR ''/'' \<notin> set b \<and> (a \<noteq> [] \<or> b \<noteq> []) \<longrightarrow>
      getRepoAndChart (a @ CHR ''/'' # b) = (a, b) \<and>
      (\<forall>err. os_Stat env w ChartsDir = StatNotExist \<and> MkdirAllErr env ChartsDir = Some err \<longrightarrow>
         downloadChart d env w (a @ CHR ''/'' # b) version = (Returns ([], Some err), w)) \<and>
      ((os_Stat env w ChartsDir = StatNotExist \<longrightarrow> MkdirAllErr env ChartsDir = None) \<longrightarrow>
         (\<exists>evs. trace (snd (downloadChart d env w (a @ CHR ''/'' # b) version))
            = trace w @ (if repoCache w a = None
                         then GetChartRepoCall a (ns d) (incfg d)
                         else GetChartCall (ToLower env b @ ''.'' @ a) version (ns d) (incfg d))
                # evs)))"
proof (intro conjI allI impI)
  show "getRepoAndChart name = ([], []) \<longleftrightarrow>
      \<not> (\<exists>a b. name = a @ CHR ''/'' # b \<and> CHR ''/'' \<notin> set a \<and> CHR ''/'' \<notin> set b
               \<and> (a \<noteq> [] \<or> b \<noteq> []))"
    by (rule getRepoAndChart_sentinel)
next
  assume "getRepoAndChart name = ([], [])"
  then show "downloadChart d env w name version
        = (Returns ([], Some (ErrorsNew ''cannot parse chart name'')), w)"
    by (simp add: downloadChart_def)
next
  fix a b
  assume h: "CHR ''/'' \<notin> set a \<and> CHR ''/'' \<notin> set b \<and> (a \<noteq> [] \<or> b \<noteq> [])"
  then show g: "getRepoAndChart (a @ CHR ''/'' # b) = (a, b)"
    by (simp add: getRepoAndChart_two)
  from h have ne: "\<not> (a = [] \<and> b = [])" by simp
  {
    fix err
    assume "os_Stat env w ChartsDir = StatNotExist \<and> MkdirAllErr env ChartsDir = Some err"
    then show "downloadChart d env w (a @ CHR ''/'' # b) version = (Returns ([], Some err), w)"
      using downloadChart_mkdir_fails [OF g ne, of env w err d version] by simp
  }
  {
    assume "os_Stat env w ChartsDir = StatNotExist \<longrightarrow> MkdirAllErr env ChartsDir = None"
    then show "\<exists>evs. trace (snd (downloadChart d env w (a @ CHR ''/'' # b) version))
            = trace w @ (if repoCache w a = None
                         then GetChartRepoCall a (ns d) (incfg d)
                         else GetChartCall (ToLower env b @ ''.'' @ a) version (ns d) (incfg d))
                # evs"
      by (rule downloadChart_goes_on [OF g ne])
  }
qed

theorem downloadChart_parse_witness:
  "getRepoAndChart ''stable/nginx/extra'' = ([], []) \<and>
   downloadChart d0 env0 world0 ''stable/nginx/extra'' ''1.2.3''
     = (Returns ([], Some (ErrorsNew ''cannot parse chart name'')), world0) \<and>
   CHR ''/'' \<notin> set ''repo'' \<and> MkdirAllErr env_norepo ChartsDir = None \<and>
   repoCache world0 ''repo'' = None \<and>
   (\<exists>evs. trace (snd (downloadChart d0 env_norepo world0 (''repo'' @ CHR ''/'' # []) ''1.2.3''))
            = trace world0 @ GetChartRepoCall ''repo'' (ns d0) (incfg d0) # evs)"
proof -
  have 1: "getRepoAndChart ''stable/nginx/extra'' = ([], [])"
    by (simp add: getRepoAndChart_def)
  from downloadChart_parse [of "''stable/nginx/extra''" d0 env0 world0 "''1.2.3''"]
  have "getRepoAndChart ''stable/nginx/extra'' = ([], []) \<longrightarrow>
      downloadChart d0 env0 world0 ''stable/nginx/extra'' ''1.2.3''
        = (Returns ([], Some (ErrorsNew ''cannot parse chart name'')), world0)"
    by (rule conjunct1 [OF conjunct2])
  with 1 have a: "downloadChart d0 env0 world0 ''stable/nginx/extra'' ''1.2.3''
        = (Returns ([], Some (ErrorsNew ''cannot parse chart name'')), world0)"
    by simp
  have pre: "CHR ''/'' \<notin> set ''repo'' \<and> CHR ''/'' \<notin> set [] \<and> (''repo'' \<noteq> [] \<or> [] \<noteq> ([]::string))"
    by simp
  have dir: "os_Stat env_norepo world0 ChartsDir = StatNotExist \<longrightarrow> MkdirAllErr env_norepo ChartsDir = None"
    and 2: "MkdirAllErr env_norepo ChartsDir = None" "repoCache world0 ''repo'' = None"
    by (simp_all add: env_norepo_def env0_def world0_def)
  note c3 = downloadChart_parse [of "''stable/nginx''" d0 env_norepo world0 "''1.2.3''",
      THEN conjunct2, THEN conjunct2, rule_format, OF pre, THEN conjunct2, THEN conjunct2,
      THEN mp, OF dir]
  from c3 2 have "\<exists>evs. trace (snd (downloadChart d0 env_norepo world0 (''repo'' @ CHR ''/'' # []) ''1.2.3''))
            = trace world0 @ GetChartRepoCall ''repo'' (ns d0) (incfg d0) # evs"
    by simp
  with 1 a 2 show ?thesis by simp
qed

text \<open>The claim as written fails on \<open>repo/\<close> and \<open>/chart\<close>: neither is refused,
  both go on to the repository lookup, whose error is what the caller gets.\<close>

theorem downloadChart_empty_segment_counterexample:
  "downloadChart d0 env_norepo world0 ''repo/'' ''1.2.3''
     = (Returns ([], Some (StatusNotFound ''chartrepo not found'')),
        world0\<lparr>dirs := {''/tmp/helm-charts''},
               trace := [GetChartRepoCall ''repo'' ''system'' ''in-cluster'']\<rparr>) \<and>
   fst (downloadChart d0 env_norepo world0 ''/chart'' ''1.2.3'')
     = Returns ([], Some (StatusNotFound ''chartrepo not found'')) \<and>
   trace (snd (downloadChart d0 env_norepo world0 ''/chart'' ''1.2.3''))
     = [GetChartRepoCall [] ''system'' ''in-cluster'']"
  by (simp add: downloadChart_def getRepoAndChart_def ensureDir_def os_Stat_def os_MkdirAll_def
        getRepoInfo_def ChartsDir_def env_norepo_def env0_def world0_def d0_def call_def Let_def)

end
